theory Spec2Isabelle
  imports Complex_Main "HOL-Library.List_Lexorder" "HOL-Library.Char_ord"
  "HOL-Library.Product_Lexorder" "HOL-Library.Multiset"
begin

section \<open>JavaScript strings and numbers, as far as the handlers use them\<close>

text \<open>
  A string is a list of code units; HOL's \<open>char\<close> has 256 values, so the model covers
  the code units below 256. \<open>String.prototype.trim\<close> and the numeric conversion strip
  the white space and line terminators of that range: TAB, LF, VT, FF, CR, SPACE and
  NBSP.
\<close>

definition is_ws :: "char \<Rightarrow> bool" where
  "is_ws c = ((of_char c :: nat) \<in> {9, 10, 11, 12, 13, 32, 160})"

definition trim :: "string \<Rightarrow> string" where
  "trim s = rev (dropWhile is_ws (rev (dropWhile is_ws s)))"

text \<open>
  A JavaScript number is \<open>NaN\<close> or a \<open>number\<close> proper: a finite value or one of the
  two infinities. A finite value is carried as the exact rational its literal denotes;
  the rounding of a decimal literal to the nearest binary64 value and the overflow of a
  huge literal to \<open>Infinity\<close> are not modelled, and \<open>-0\<close> is \<open>0\<close>.
\<close>

datatype number = Fin rat | PosInfinity | NegInfinity

datatype js_number = NaN | Num number

fun number_less :: "number \<Rightarrow> number \<Rightarrow> bool" where
  "number_less (Fin a) (Fin b) = (a < b)"
| "number_less (Fin a) PosInfinity = True"
| "number_less (Fin a) NegInfinity = False"
| "number_less PosInfinity y = False"
| "number_less NegInfinity (Fin b) = True"
| "number_less NegInfinity PosInfinity = True"
| "number_less NegInfinity NegInfinity = False"

text \<open>\<open>a < b\<close> and \<open>a > b\<close> of JavaScript: false as soon as one side is \<open>NaN\<close>.\<close>

fun js_lt :: "js_number \<Rightarrow> js_number \<Rightarrow> bool" where
  "js_lt (Num a) (Num b) = number_less a b"
| "js_lt NaN y = False"
| "js_lt (Num a) NaN = False"

definition js_gt :: "js_number \<Rightarrow> js_number \<Rightarrow> bool" where
  "js_gt a b = js_lt b a"

definition isNaN :: "js_number \<Rightarrow> bool" where
  "isNaN x = (x = NaN)"

fun negate :: "number \<Rightarrow> number" where
  "negate (Fin a) = Fin (- a)"
| "negate PosInfinity = NegInfinity"
| "negate NegInfinity = PosInfinity"

subsection \<open>\<open>Number(string)\<close>: the StringNumericLiteral grammar\<close>

definition is_digit :: "char \<Rightarrow> bool" where
  "is_digit c = (48 \<le> (of_char c :: nat) \<and> (of_char c :: nat) \<le> 57)"

definition is_hex_digit :: "char \<Rightarrow> bool" where
  "is_hex_digit c = (is_digit c
     \<or> (97 \<le> (of_char c :: nat) \<and> (of_char c :: nat) \<le> 102)
     \<or> (65 \<le> (of_char c :: nat) \<and> (of_char c :: nat) \<le> 70))"

definition is_octal_digit :: "char \<Rightarrow> bool" where
  "is_octal_digit c = (48 \<le> (of_char c :: nat) \<and> (of_char c :: nat) \<le> 55)"

definition is_binary_digit :: "char \<Rightarrow> bool" where
  "is_binary_digit c = (48 \<le> (of_char c :: nat) \<and> (of_char c :: nat) \<le> 49)"

definition digit_value :: "char \<Rightarrow> nat" where
  "digit_value c = (if is_digit c then of_char c - 48
     else if 97 \<le> (of_char c :: nat) then of_char c - 87
     else of_char c - 55)"

definition radix_value :: "nat \<Rightarrow> string \<Rightarrow> nat" where
  "radix_value b s = foldl (\<lambda>acc c. b * acc + digit_value c) 0 s"

definition DecimalDigits :: "string \<Rightarrow> nat option" where
  "DecimalDigits s =
     (if s \<noteq> [] \<and> list_all is_digit s then Some (radix_value 10 s) else None)"

text \<open>What follows the mantissa: nothing, or \<open>e\<close>/\<open>E\<close> and a signed integer.\<close>

definition ExponentPart_opt :: "string \<Rightarrow> int option" where
  "ExponentPart_opt s =
     (case s of
        [] \<Rightarrow> Some 0
      | c # t \<Rightarrow>
          if c = CHR ''e'' \<or> c = CHR ''E'' then
            (case t of
               [] \<Rightarrow> None
             | x # ds \<Rightarrow>
                 if x = CHR ''+'' then map_option int (DecimalDigits ds)
                 else if x = CHR ''-'' then map_option (\<lambda>n. - int n) (DecimalDigits ds)
                 else map_option int (DecimalDigits t))
          else None)"

definition scale10 :: "rat \<Rightarrow> int \<Rightarrow> rat" where
  "scale10 m e = (if 0 \<le> e then m * 10 ^ nat e else m / 10 ^ nat (- e))"

definition StrUnsignedDecimalLiteral :: "string \<Rightarrow> number option" where
  "StrUnsignedDecimalLiteral s =
     (if s = ''Infinity'' then Some PosInfinity
      else
        let ip = takeWhile is_digit s;
            r1 = dropWhile is_digit s;
            fp = (case r1 of [] \<Rightarrow> [] | c # t \<Rightarrow> if c = CHR ''.'' then takeWhile is_digit t else []);
            r2 = (case r1 of [] \<Rightarrow> [] | c # t \<Rightarrow> if c = CHR ''.'' then dropWhile is_digit t else r1)
        in if ip = [] \<and> fp = [] then None
           else case ExponentPart_opt r2 of
                  None \<Rightarrow> None
                | Some e \<Rightarrow>
                    Some (Fin (scale10 (of_nat (radix_value 10 (ip @ fp)) / 10 ^ length fp) e)))"

definition StrDecimalLiteral :: "string \<Rightarrow> number option" where
  "StrDecimalLiteral s =
     (case s of
        [] \<Rightarrow> None
      | c # t \<Rightarrow>
          if c = CHR ''+'' then StrUnsignedDecimalLiteral t
          else if c = CHR ''-'' then map_option negate (StrUnsignedDecimalLiteral t)
          else StrUnsignedDecimalLiteral s)"

text \<open>\<open>0x\<close>, \<open>0o\<close> and \<open>0b\<close> literals: unsigned, at least one digit of the radix.\<close>

definition NonDecimalIntegerLiteral :: "string \<Rightarrow> number option" where
  "NonDecimalIntegerLiteral s =
     (case s of
        z # x # ds \<Rightarrow>
          if z = CHR ''0'' \<and> ds \<noteq> [] then
            (if (x = CHR ''x'' \<or> x = CHR ''X'') \<and> list_all is_hex_digit ds
               then Some (Fin (of_nat (radix_value 16 ds)))
             else if (x = CHR ''o'' \<or> x = CHR ''O'') \<and> list_all is_octal_digit ds
               then Some (Fin (of_nat (radix_value 8 ds)))
             else if (x = CHR ''b'' \<or> x = CHR ''B'') \<and> list_all is_binary_digit ds
               then Some (Fin (of_nat (radix_value 2 ds)))
             else None)
          else None
      | _ \<Rightarrow> None)"

definition StringToNumber :: "string \<Rightarrow> js_number" where
  "StringToNumber s =
     (let t = trim s in
      if t = [] then Num (Fin 0)
      else case NonDecimalIntegerLiteral t of
             Some n \<Rightarrow> Num n
           | None \<Rightarrow> (case StrDecimalLiteral t of Some n \<Rightarrow> Num n | None \<Rightarrow> NaN))"

text \<open>
  The values a JSON body field can hold, arrays and objects apart (their conversion
  goes through the printing of numbers, which is not modelled). A field that is absent
  reads as \<open>undefined\<close>.
\<close>

datatype js_value =
  JUndefined | JNull | JBoolean bool | JNumber js_number | JString string

fun Number :: "js_value \<Rightarrow> js_number" where
  "Number JUndefined = NaN"
| "Number JNull = Num (Fin 0)"
| "Number (JBoolean b) = Num (Fin (if b then 1 else 0))"
| "Number (JNumber n) = n"
| "Number (JString s) = StringToNumber s"

text \<open>
  \<open>title\<close> and \<open>author\<close> of the create request are documented as strings; such a field is
  absent (\<open>None\<close>) or a string. \<open>!v\<close> holds of an absent field and of the empty string,
  \<open>String(v)\<close> is the string itself and \<open>"undefined"\<close> for an absent field.
\<close>

definition falsy :: "string option \<Rightarrow> bool" where
  "falsy v = (case v of None \<Rightarrow> True | Some s \<Rightarrow> s = [])"

definition String_of :: "string option \<Rightarrow> string" where
  "String_of v = (case v of None \<Rightarrow> ''undefined'' | Some s \<Rightarrow> s)"

section \<open>The book table\<close>

datatype BookStatus = READ | UNREAD

text \<open>
  A point in time as the clock gives it and as a \<open>Date\<close> holds it, in UTC and broken
  down; the fields are taken to be in their calendar ranges, the year in 0..9999.
\<close>

record datetime =
  year :: nat
  month :: nat
  day :: nat
  hour :: nat
  minute :: nat
  second :: nat
  millis :: nat

definition digit_char :: "nat \<Rightarrow> char" where
  "digit_char d = ''0123456789'' ! (d mod 10)"

definition pad2 :: "nat \<Rightarrow> string" where
  "pad2 n = [digit_char (n div 10), digit_char n]"

definition pad3 :: "nat \<Rightarrow> string" where
  "pad3 n = [digit_char (n div 100), digit_char (n div 10), digit_char n]"

definition pad4 :: "nat \<Rightarrow> string" where
  "pad4 n = [digit_char (n div 1000), digit_char (n div 100), digit_char (n div 10), digit_char n]"

text \<open>
  The column \<open>createdAt\<close> is text. SQLite's \<open>CURRENT_TIMESTAMP\<close>, the column's default in the
  raw layer's schema, is \<open>YYYY-MM-DD HH:MM:SS\<close>: the clock cut to whole seconds.
\<close>

definition CURRENT_TIMESTAMP :: "datetime \<Rightarrow> string" where
  "CURRENT_TIMESTAMP now =
     pad4 (year now) @ ''-'' @ pad2 (month now) @ ''-'' @ pad2 (day now) @ '' '' @
     pad2 (hour now) @ '':'' @ pad2 (minute now) @ '':'' @ pad2 (second now)"

text \<open>
  The ORM writes a \<open>Date\<close> to the SQLite column as \<open>YYYY-MM-DD HH:MM:SS.mmm +00:00\<close> and
  reads the column back into a \<open>Date\<close>. \<open>DATE_parse\<close> reads the fields at their places in
  the two forms of text that the layers write, the milliseconds as 0 where the text
  ends with the seconds; the column holds no other text.
\<close>

definition DATE_stringify :: "datetime \<Rightarrow> string" where
  "DATE_stringify t =
     pad4 (year t) @ ''-'' @ pad2 (month t) @ ''-'' @ pad2 (day t) @ '' '' @
     pad2 (hour t) @ '':'' @ pad2 (minute t) @ '':'' @ pad2 (second t) @ ''.'' @
     pad3 (millis t) @ '' +00:00''"

definition DATE_parse :: "string \<Rightarrow> datetime" where
  "DATE_parse s =
     \<lparr>year = radix_value 10 (take 4 s),
      month = radix_value 10 (take 2 (drop 5 s)),
      day = radix_value 10 (take 2 (drop 8 s)),
      hour = radix_value 10 (take 2 (drop 11 s)),
      minute = radix_value 10 (take 2 (drop 14 s)),
      second = radix_value 10 (take 2 (drop 17 s)),
      millis = (if length s \<le> 19 then 0 else radix_value 10 (take 3 (drop 20 s)))\<rparr>"

text \<open>\<open>Date.prototype.toISOString\<close>: \<open>YYYY-MM-DDTHH:mm:ss.sssZ\<close>.\<close>

definition toISOString :: "datetime \<Rightarrow> string" where
  "toISOString t =
     pad4 (year t) @ ''-'' @ pad2 (month t) @ ''-'' @ pad2 (day t) @ ''T'' @
     pad2 (hour t) @ '':'' @ pad2 (minute t) @ '':'' @ pad2 (second t) @ ''.'' @
     pad3 (millis t) @ ''Z''"

text \<open>
  One shape for the three interfaces of the source: a row of the table and \<open>Book\<close>, what
  the API returns (\<open>createdAt\<close> a string in both), and \<open>BookAttributes\<close>, the instance the
  ORM builds from a row (\<open>createdAt\<close> a \<open>Date\<close>). The \<open>status\<close> column holds the two values the
  code writes. The \<open>rating\<close> column is declared INTEGER but keeps whatever number is
  written to it.
\<close>

record 'ts book =
  id' :: int
  title :: string
  author :: string
  status :: BookStatus
  createdAt :: 'ts
  rating :: number

type_synonym Book = "string book"

type_synonym BookAttributes = "datetime book"

text \<open>
  The table in row order, and the counter behind \<open>AUTOINCREMENT\<close>: the largest id ever
  given out. Both layers work on this one table. Ids are unbounded integers in the
  model.
\<close>

record database =
  books :: "Book list"
  sqlite_sequence :: int

text \<open>
  A new row gets an id one above the largest that the table holds or has ever held.
\<close>

definition next_rowid :: "database \<Rightarrow> int" where
  "next_rowid d = fold max (map id' (books d)) (sqlite_sequence d) + 1"

text \<open>\<open>WHERE id = ?\<close> with a number bound: numeric equality with the integer column.\<close>

definition row_matches :: "number \<Rightarrow> Book \<Rightarrow> bool" where
  "row_matches i r = (Fin (of_int (id' r)) = i)"

text \<open>
  \<open>ORDER BY createdAt DESC\<close>: the column's text is compared unit by unit, a text
  before every longer text that starts with it. SQL leaves the order of rows with
  equal keys open; the model keeps them in table order.
\<close>

definition order_by_createdAt_desc :: "Book list \<Rightarrow> Book list" where
  "order_by_createdAt_desc rs = rev (sort_key createdAt (rev rs))"

text \<open>
  What can go wrong for a reason the model sees: the raw layer reading a field of a row
  that is not there, a validator of the ORM model rejecting a value, and the ORM's
  query for an id that is \<open>Infinity\<close> or \<open>-Infinity\<close>, which the engine refuses. Faults of
  the engine itself (disk, connection) are outside the model.
\<close>

datatype error = TypeError | SequelizeValidationError | SequelizeDatabaseError

text \<open>
  The flip of \<open>status\<close>: \<open>CASE WHEN status = 'READ' THEN 'UNREAD' ELSE 'READ' END\<close> in the
  raw layer, \<open>book.status === 'READ' ? 'UNREAD' : 'READ'\<close> in the ORM layer.
\<close>

definition toggled :: "BookStatus \<Rightarrow> BookStatus" where
  "toggled s = (if s = READ then UNREAD else READ)"

section \<open>The store on the raw driver\<close>

text \<open>The module on \<open>sqlite3\<close> (\<open>src/unnamed/part_000\<close>); its functions carry the prefix \<open>raw_\<close>.\<close>

text \<open>\<open>createdAt\<close> is returned as the column holds it.\<close>

definition mapRowToBook :: "Book \<Rightarrow> Book" where
  "mapRowToBook row =
     \<lparr>id' = id' row, title = title row, author = author row, status = status row,
      createdAt = createdAt row, rating = rating row\<rparr>"

text \<open>\<open>db.get('SELECT * FROM books WHERE id = ?')\<close>: the first matching row, if any.\<close>

definition select_by_id :: "number \<Rightarrow> database \<Rightarrow> Book option" where
  "select_by_id i d = find (row_matches i) (books d)"

definition raw_getAllBooks :: "database \<Rightarrow> (error + Book list) \<times> database" where
  "raw_getAllBooks d = (Inr (map mapRowToBook (order_by_createdAt_desc (books d))), d)"

text \<open>
  The clock is an argument: \<open>now\<close> is its reading when the row is inserted. The row is
  read back by \<open>lastID\<close> before it is returned.
\<close>

definition raw_createBook ::
  "string \<Rightarrow> string \<Rightarrow> datetime \<Rightarrow> database \<Rightarrow> (error + Book) \<times> database" where
  "raw_createBook t a now d =
     (let lastID = next_rowid d;
          d' = d\<lparr>books := books d @
                  [\<lparr>id' = lastID, title = t, author = a, status = UNREAD,
                    createdAt = CURRENT_TIMESTAMP now, rating = Fin 0\<rparr>],
                sqlite_sequence := lastID\<rparr>
      in (case select_by_id (Fin (of_int lastID)) d' of
            None \<Rightarrow> Inl TypeError
          | Some row \<Rightarrow> Inr (mapRowToBook row),
          d'))"

definition raw_toggleBookStatus ::
  "number \<Rightarrow> database \<Rightarrow> (error + Book option) \<times> database" where
  "raw_toggleBookStatus i d =
     (let changes = length (filter (row_matches i) (books d));
          d' = d\<lparr>books := map (\<lambda>r. if row_matches i r
                                   then r\<lparr>status := toggled (status r)\<rparr>
                                   else r) (books d)\<rparr>
      in if changes = 0 then (Inr None, d')
         else (Inr (map_option mapRowToBook (select_by_id i d')), d'))"

definition raw_deleteBook :: "number \<Rightarrow> database \<Rightarrow> (error + bool) \<times> database" where
  "raw_deleteBook i d =
     (let changes = length (filter (row_matches i) (books d));
          d' = d\<lparr>books := filter (\<lambda>r. \<not> row_matches i r) (books d)\<rparr>
      in (Inr (changes > 0), d'))"

definition raw_updateBookRating ::
  "number \<Rightarrow> number \<Rightarrow> database \<Rightarrow> (error + Book option) \<times> database" where
  "raw_updateBookRating i rt d =
     (let changes = length (filter (row_matches i) (books d));
          d' = d\<lparr>books := map (\<lambda>r. if row_matches i r then r\<lparr>rating := rt\<rparr> else r) (books d)\<rparr>
      in if changes = 0 then (Inr None, d')
         else (Inr (map_option mapRowToBook (select_by_id i d')), d'))"

section \<open>The store on the ORM\<close>

text \<open>The module on Sequelize (\<open>src/backend/src/db.ts\<close>, with the model of
  \<open>src/backend/src/models/Book.ts\<close>), on the SQLite file that the raw layer uses; its
  functions carry the prefix \<open>orm_\<close>.\<close>

text \<open>
  The calls of the ORM that the layer makes. The model's only validators are \<open>min: 0\<close>
  and \<open>max: 5\<close> on \<open>rating\<close>; they run when a row is created and when \<open>rating\<close> is among
  the fields an update writes.
\<close>

definition validate_rating :: "number \<Rightarrow> bool" where
  "validate_rating rt = (\<not> number_less rt (Fin 0) \<and> \<not> number_less (Fin 5) rt)"

text \<open>The instance built from a row: \<open>createdAt\<close> becomes a \<open>Date\<close>.\<close>

definition build :: "Book \<Rightarrow> BookAttributes" where
  "build row =
     \<lparr>id' = id' row, title = title row, author = author row, status = status row,
      createdAt = DATE_parse (createdAt row), rating = rating row\<rparr>"

text \<open>
  \<open>Book.findByPk\<close>: the id is written into the query as JavaScript prints it, and
  \<open>Infinity\<close> and \<open>-Infinity\<close> are no SQL numbers: the query fails. A finite number is
  compared with the column.
\<close>

definition findByPk :: "number \<Rightarrow> database \<Rightarrow> error + BookAttributes option" where
  "findByPk i d =
     (case i of
        Fin q \<Rightarrow> Inr (map_option build (find (row_matches i) (books d)))
      | _ \<Rightarrow> Inl SequelizeDatabaseError)"

definition findAll_createdAt_desc :: "database \<Rightarrow> BookAttributes list" where
  "findAll_createdAt_desc d = map build (order_by_createdAt_desc (books d))"

text \<open>\<open>Book.create\<close>: \<open>createdAt\<close> defaults to \<open>NOW\<close>, the clock at full resolution; the
  instance keeps that \<open>Date\<close>, the row its text.\<close>

definition Book_create ::
  "string \<Rightarrow> string \<Rightarrow> BookStatus \<Rightarrow> number \<Rightarrow> datetime \<Rightarrow> database
     \<Rightarrow> (error + BookAttributes) \<times> database" where
  "Book_create t a s rt now d =
     (if \<not> validate_rating rt then (Inl SequelizeValidationError, d)
      else
        let book = \<lparr>id' = next_rowid d, title = t, author = a, status = s,
                    createdAt = now, rating = rt\<rparr>;
            row = \<lparr>id' = id' book, title = t, author = a, status = s,
                   createdAt = DATE_stringify now, rating = rt\<rparr>
        in (Inr book, d\<lparr>books := books d @ [row], sqlite_sequence := id' book\<rparr>))"

text \<open>\<open>book.update({ status })\<close>, \<open>book.update({ rating })\<close> and \<open>book.destroy()\<close>: one
  statement each, \<open>WHERE id\<close> is the instance's primary key.\<close>

definition update_status ::
  "BookAttributes \<Rightarrow> BookStatus \<Rightarrow> database \<Rightarrow> (error + BookAttributes) \<times> database" where
  "update_status book s d =
     (Inr (book\<lparr>status := s\<rparr>),
      d\<lparr>books := map (\<lambda>r. if id' r = id' book then r\<lparr>status := s\<rparr> else r) (books d)\<rparr>)"

definition update_rating ::
  "BookAttributes \<Rightarrow> number \<Rightarrow> database \<Rightarrow> (error + BookAttributes) \<times> database" where
  "update_rating book rt d =
     (if \<not> validate_rating rt then (Inl SequelizeValidationError, d)
      else
        (Inr (book\<lparr>rating := rt\<rparr>),
         d\<lparr>books := map (\<lambda>r. if id' r = id' book then r\<lparr>rating := rt\<rparr> else r) (books d)\<rparr>))"

definition destroy :: "BookAttributes \<Rightarrow> database \<Rightarrow> database" where
  "destroy book d = d\<lparr>books := filter (\<lambda>r. id' r \<noteq> id' book) (books d)\<rparr>"

text \<open>The object literal that every function of the layer returns.\<close>

definition plain :: "BookAttributes \<Rightarrow> Book" where
  "plain book =
     \<lparr>id' = id' book, title = title book, author = author book, status = status book,
      createdAt = toISOString (createdAt book), rating = rating book\<rparr>"

definition orm_getAllBooks :: "database \<Rightarrow> (error + Book list) \<times> database" where
  "orm_getAllBooks d = (Inr (map plain (findAll_createdAt_desc d)), d)"

definition orm_createBook ::
  "string \<Rightarrow> string \<Rightarrow> datetime \<Rightarrow> database \<Rightarrow> (error + Book) \<times> database" where
  "orm_createBook t a now d =
     (case Book_create (trim t) (trim a) UNREAD (Fin 0) now d of
        (Inl e, d') \<Rightarrow> (Inl e, d')
      | (Inr book, d') \<Rightarrow> (Inr (plain book), d'))"

definition orm_toggleBookStatus ::
  "number \<Rightarrow> database \<Rightarrow> (error + Book option) \<times> database" where
  "orm_toggleBookStatus i d =
     (case findByPk i d of
        Inl e \<Rightarrow> (Inl e, d)
      | Inr None \<Rightarrow> (Inr None, d)
      | Inr (Some book) \<Rightarrow>
          let newStatus = toggled (status book)
          in (case update_status book newStatus d of
                (Inl e, d') \<Rightarrow> (Inl e, d')
              | (Inr book', d') \<Rightarrow> (Inr (Some (plain book')), d')))"

definition orm_deleteBook :: "number \<Rightarrow> database \<Rightarrow> (error + bool) \<times> database" where
  "orm_deleteBook i d =
     (case findByPk i d of
        Inl e \<Rightarrow> (Inl e, d)
      | Inr None \<Rightarrow> (Inr False, d)
      | Inr (Some book) \<Rightarrow> (Inr True, destroy book d))"

definition orm_updateBookRating ::
  "number \<Rightarrow> number \<Rightarrow> database \<Rightarrow> (error + Book option) \<times> database" where
  "orm_updateBookRating i rt d =
     (case findByPk i d of
        Inl e \<Rightarrow> (Inl e, d)
      | Inr None \<Rightarrow> (Inr None, d)
      | Inr (Some book) \<Rightarrow>
          (case update_rating book rt d of
             (Inl e, d') \<Rightarrow> (Inl e, d')
           | (Inr book', d') \<Rightarrow> (Inr (Some (plain book')), d')))"

section \<open>The HTTP handlers\<close>

text \<open>
  The handlers of \<open>src/unnamed/part_002\<close>, named by method and route. They call whichever
  store module is imported as \<open>./db\<close>; here the store is an argument, a record of its five
  functions over any kind of database. A handler returns the response and the database
  as the store left it.
\<close>

record 'db store =
  getAllBooks :: "'db \<Rightarrow> (error + Book list) \<times> 'db"
  createBook :: "string \<Rightarrow> string \<Rightarrow> datetime \<Rightarrow> 'db \<Rightarrow> (error + Book) \<times> 'db"
  toggleBookStatus :: "number \<Rightarrow> 'db \<Rightarrow> (error + Book option) \<times> 'db"
  deleteBook :: "number \<Rightarrow> 'db \<Rightarrow> (error + bool) \<times> 'db"
  updateBookRating :: "number \<Rightarrow> number \<Rightarrow> 'db \<Rightarrow> (error + Book option) \<times> 'db"

definition raw_store :: "database store" where
  "raw_store =
     \<lparr>getAllBooks = raw_getAllBooks, createBook = raw_createBook,
      toggleBookStatus = raw_toggleBookStatus, deleteBook = raw_deleteBook,
      updateBookRating = raw_updateBookRating\<rparr>"

definition orm_store :: "database store" where
  "orm_store =
     \<lparr>getAllBooks = orm_getAllBooks, createBook = orm_createBook,
      toggleBookStatus = orm_toggleBookStatus, deleteBook = orm_deleteBook,
      updateBookRating = orm_updateBookRating\<rparr>"

datatype payload = Message string | BookJson Book | BooksJson "Book list" | Empty

record response =
  statusCode :: nat
  body :: payload

definition get_api_books :: "'db store \<Rightarrow> 'db \<Rightarrow> response \<times> 'db" where
  "get_api_books S d =
     (case getAllBooks S d of
        (Inl e, d') \<Rightarrow> (\<lparr>statusCode = 500, body = Message ''Failed to fetch books''\<rparr>, d')
      | (Inr bs, d') \<Rightarrow> (\<lparr>statusCode = 200, body = BooksJson bs\<rparr>, d'))"

text \<open>\<open>tt\<close> and \<open>au\<close> are the fields \<open>title\<close> and \<open>author\<close> of the request body.\<close>

definition post_api_books ::
  "'db store \<Rightarrow> string option \<Rightarrow> string option \<Rightarrow> datetime \<Rightarrow> 'db \<Rightarrow> response \<times> 'db" where
  "post_api_books S tt au now d =
     (if falsy tt \<or> falsy au
      then (\<lparr>statusCode = 400, body = Message ''Title and author are required''\<rparr>, d)
      else
        case createBook S (trim (String_of tt)) (trim (String_of au)) now d of
          (Inl e, d') \<Rightarrow> (\<lparr>statusCode = 500, body = Message ''Failed to create book''\<rparr>, d')
        | (Inr book, d') \<Rightarrow> (\<lparr>statusCode = 201, body = BookJson book\<rparr>, d'))"

text \<open>\<open>seg\<close> is the path segment \<open>:id\<close>. The store is called with a number that is not
  \<open>NaN\<close>: the \<open>NaN\<close> branch of the \<open>case\<close> is the \<open>Number.isNaN\<close> test.\<close>

definition patch_api_books_id_toggle :: "'db store \<Rightarrow> string \<Rightarrow> 'db \<Rightarrow> response \<times> 'db" where
  "patch_api_books_id_toggle S seg d =
     (case Number (JString seg) of
        NaN \<Rightarrow> (\<lparr>statusCode = 400, body = Message ''Invalid book id''\<rparr>, d)
      | Num i \<Rightarrow>
          (case toggleBookStatus S i d of
             (Inl e, d') \<Rightarrow> (\<lparr>statusCode = 500, body = Message ''Failed to update book''\<rparr>, d')
           | (Inr None, d') \<Rightarrow> (\<lparr>statusCode = 404, body = Message ''Book not found''\<rparr>, d')
           | (Inr (Some book), d') \<Rightarrow> (\<lparr>statusCode = 200, body = BookJson book\<rparr>, d')))"

text \<open>\<open>rv\<close> is the field \<open>rating\<close> of the request body. The last branch of the inner
  \<open>case\<close> is never taken: both numbers have passed the \<open>Number.isNaN\<close> test.\<close>

definition patch_api_books_id_rating ::
  "'db store \<Rightarrow> string \<Rightarrow> js_value \<Rightarrow> 'db \<Rightarrow> response \<times> 'db" where
  "patch_api_books_id_rating S seg rv d =
     (let id = Number (JString seg); rating = Number rv in
      if isNaN id \<or> isNaN rating
      then (\<lparr>statusCode = 400, body = Message ''Invalid id or rating''\<rparr>, d)
      else if js_lt rating (Num (Fin 1)) \<or> js_gt rating (Num (Fin 5))
      then (\<lparr>statusCode = 400, body = Message ''Rating must be between 1 and 5''\<rparr>, d)
      else
        case (id, rating) of
          (Num i, Num rt) \<Rightarrow>
            (case updateBookRating S i rt d of
               (Inl e, d') \<Rightarrow> (\<lparr>statusCode = 500, body = Message ''Failed to update rating''\<rparr>, d')
             | (Inr None, d') \<Rightarrow> (\<lparr>statusCode = 404, body = Message ''Book not found''\<rparr>, d')
             | (Inr (Some book), d') \<Rightarrow> (\<lparr>statusCode = 200, body = BookJson book\<rparr>, d'))
        | _ \<Rightarrow> (\<lparr>statusCode = 400, body = Message ''Invalid id or rating''\<rparr>, d))"

definition delete_api_books_id :: "'db store \<Rightarrow> string \<Rightarrow> 'db \<Rightarrow> response \<times> 'db" where
  "delete_api_books_id S seg d =
     (case Number (JString seg) of
        NaN \<Rightarrow> (\<lparr>statusCode = 400, body = Message ''Invalid book id''\<rparr>, d)
      | Num i \<Rightarrow>
          (case deleteBook S i d of
             (Inl e, d') \<Rightarrow> (\<lparr>statusCode = 500, body = Message ''Failed to delete book''\<rparr>, d')
           | (Inr False, d') \<Rightarrow> (\<lparr>statusCode = 404, body = Message ''Book not found''\<rparr>, d')
           | (Inr True, d') \<Rightarrow> (\<lparr>statusCode = 204, body = Empty\<rparr>, d')))"

section \<open>Auxiliary notions\<close>

text \<open>
  The row that an insert adds to table \<open>d\<close> with the text \<open>ts\<close> in \<open>createdAt\<close>, for stating
  what the two \<open>createBook\<close> do.
\<close>

definition inserted :: "string \<Rightarrow> string \<Rightarrow> string \<Rightarrow> database \<Rightarrow> Book" where
  "inserted t a ts d = \<lparr>id' = next_rowid d, title = t, author = a, status = UNREAD,
                         createdAt = ts, rating = Fin 0\<rparr>"

text \<open>
  The order of time on clock readings, for fields in their calendar ranges: by year,
  then month, day, hour, minute, second and millisecond.
\<close>

definition dt_key :: "datetime \<Rightarrow> nat \<times> nat \<times> nat \<times> nat \<times> nat \<times> nat \<times> nat" where
  "dt_key t = (year t, month t, day t, hour t, minute t, second t, millis t)"

text \<open>
  A text of the column \<open>createdAt\<close> is one that a layer writes when it is
  \<open>CURRENT_TIMESTAMP\<close> or the ORM's text of the clock reading that the ORM reads from it.
\<close>

definition written_by_a_layer :: "string \<Rightarrow> bool" where
  "written_by_a_layer s =
     (s = CURRENT_TIMESTAMP (DATE_parse s) \<or> s = DATE_stringify (DATE_parse s))"

section \<open>Sample data\<close>

text \<open>
  Two clock readings, and three rows: \<open>dune\<close> as the raw layer writes it at \<open>noon\<close>, \<open>emma\<close>
  as the ORM layer writes it at \<open>later\<close>, \<open>ubik\<close> as the ORM layer writes it at \<open>noon\<close>.
\<close>

definition noon :: datetime where
  "noon = \<lparr>year = 2024, month = 1, day = 1, hour = 12, minute = 0, second = 0, millis = 0\<rparr>"

definition later :: datetime where
  "later = \<lparr>year = 2024, month = 1, day = 1, hour = 12, minute = 0, second = 30, millis = 250\<rparr>"

definition dune :: Book where
  "dune = \<lparr>id' = 1, title = ''Dune'', author = ''Herbert'', status = UNREAD,
           createdAt = ''2024-01-01 12:00:00'', rating = Fin 0\<rparr>"

definition emma :: Book where
  "emma = \<lparr>id' = 2, title = ''Emma'', author = ''Austen'', status = READ,
           createdAt = ''2024-01-01 12:00:30.250 +00:00'', rating = Fin 4\<rparr>"

definition ubik :: Book where
  "ubik = \<lparr>id' = 3, title = ''Ubik'', author = ''Dick'', status = UNREAD,
           createdAt = ''2024-01-01 12:00:00.000 +00:00'', rating = Fin 0\<rparr>"

definition empty_db :: database where
  "empty_db = \<lparr>books = [], sqlite_sequence = 0\<rparr>"

definition shelf :: database where
  "shelf = \<lparr>books = [dune, emma], sqlite_sequence = 2\<rparr>"

section \<open>Facts about the table\<close>

lemma row_matches_same_id: "row_matches i b \<Longrightarrow> row_matches i r = (id' r = id' b)"
  by (auto simp: row_matches_def)

lemma find_row_matches: "find (row_matches i) rs = Some b \<Longrightarrow> row_matches i b \<and> b \<in> set rs"
  by (auto simp: find_Some_iff)

lemma filter_same_id:
  "row_matches i b \<Longrightarrow> filter (\<lambda>r. id' r \<noteq> id' b) rs = filter (\<lambda>r. \<not> row_matches i r) rs"
  by (simp add: row_matches_same_id)

lemma filter_no_match:
  "find (row_matches i) rs = None \<Longrightarrow> filter (\<lambda>r. \<not> row_matches i r) rs = rs"
  by (auto simp: find_None_iff filter_id_conv)

lemma no_match_length:
  "(length (filter (row_matches i) rs) = 0) = (find (row_matches i) rs = None)"
  by (auto simp: find_None_iff filter_empty_conv)

lemma list_ex_find: "list_ex P xs = (find P xs \<noteq> None)"
  by (auto simp: list_ex_iff find_None_iff)

lemma fold_max_ge_init: "(a::int) \<le> fold max xs a"
proof (induction xs arbitrary: a)
  case Nil
  show ?case by simp
next
  case (Cons x xs)
  have "a \<le> max x a" by simp
  also have "max x a \<le> fold max xs (max x a)" by (rule Cons.IH)
  finally show ?case by simp
qed

lemma fold_max_ge_mem: "(x::int) \<in> set xs \<Longrightarrow> x \<le> fold max xs a"
proof (induction xs arbitrary: a)
  case Nil
  then show ?case by simp
next
  case (Cons y ys)
  show ?case
  proof (cases "x = y")
    case True
    have "x \<le> max y a" using True by simp
    also have "max y a \<le> fold max ys (max y a)" by (rule fold_max_ge_init)
    finally show ?thesis by simp
  next
    case False
    with Cons.prems have "x \<in> set ys" by simp
    then show ?thesis using Cons.IH by simp
  qed
qed

lemma next_rowid_fresh: "r \<in> set (books d) \<Longrightarrow> id' r < next_rowid d"
  using fold_max_ge_mem [of "id' r" "map id' (books d)" "sqlite_sequence d"]
  by (simp add: next_rowid_def)

lemma next_rowid_above_sequence: "sqlite_sequence d < next_rowid d"
  using fold_max_ge_init [of "sqlite_sequence d" "map id' (books d)"]
  by (simp add: next_rowid_def)

lemma order_by_sorted:
  "sorted_wrt (\<lambda>a b. createdAt b \<le> createdAt a) (order_by_createdAt_desc rs)"
proof -
  have "sorted (map createdAt (sort_key createdAt (rev rs)))"
    by (rule sorted_sort_key)
  then have "sorted_wrt (\<lambda>a b. createdAt a \<le> createdAt b) (sort_key createdAt (rev rs))"
    by (simp add: sorted_map)
  then show ?thesis
    by (simp add: order_by_createdAt_desc_def sorted_wrt_rev)
qed

lemma order_by_mset: "mset (order_by_createdAt_desc rs) = mset rs"
  by (simp add: order_by_createdAt_desc_def)

lemma order_by_set: "set (order_by_createdAt_desc rs) = set rs"
  by (simp add: order_by_createdAt_desc_def)

lemma order_by_shelf: "order_by_createdAt_desc [dune, emma] = [emma, dune]"
  by (simp add: order_by_createdAt_desc_def dune_def emma_def)

lemma order_by_twins: "order_by_createdAt_desc [dune, ubik] = [ubik, dune]"
  by (simp add: order_by_createdAt_desc_def dune_def ubik_def)

lemma mapRowToBook_row: "mapRowToBook r = r"
  by (simp add: mapRowToBook_def)

lemma build_fields:
  "id' (build r) = id' r" "title (build r) = title r" "author (build r) = author r"
  "status (build r) = status r" "rating (build r) = rating r"
  "createdAt (build r) = DATE_parse (createdAt r)"
  by (simp_all add: build_def)

lemma build_update:
  "(build r)\<lparr>status := s\<rparr> = build (r\<lparr>status := s\<rparr>)"
  "(build r)\<lparr>rating := rt\<rparr> = build (r\<lparr>rating := rt\<rparr>)"
  by (simp_all add: build_def)

lemma matched_is_finite: "row_matches i r \<Longrightarrow> i = Fin (of_int (id' r))"
  by (simp add: row_matches_def)

lemma findByPk_finite:
  "findByPk (Fin q) d = Inr (map_option build (find (row_matches (Fin q)) (books d)))"
  by (simp add: findByPk_def)

lemma findByPk_infinite:
  "findByPk PosInfinity d = Inl SequelizeDatabaseError"
  "findByPk NegInfinity d = Inl SequelizeDatabaseError"
  by (simp_all add: findByPk_def)

lemma findByPk_found:
  "find (row_matches i) (books d) = Some r \<Longrightarrow> findByPk i d = Inr (Some (build r))"
proof -
  assume f: "find (row_matches i) (books d) = Some r"
  then have "row_matches i r" by (simp add: find_row_matches)
  then have "i = Fin (of_int (id' r))" by (rule matched_is_finite)
  then show ?thesis using f by (simp add: findByPk_def)
qed

lemma raw_deleteBook_eq:
  "raw_deleteBook i d =
     (Inr (list_ex (row_matches i) (books d)),
      d\<lparr>books := filter (\<lambda>r. \<not> row_matches i r) (books d)\<rparr>)"
  using no_match_length [of i "books d"]
  by (auto simp: raw_deleteBook_def Let_def list_ex_find)

lemma orm_deleteBook_eq:
  "orm_deleteBook (Fin q) d =
     (Inr (list_ex (row_matches (Fin q)) (books d)),
      d\<lparr>books := filter (\<lambda>r. \<not> row_matches (Fin q) r) (books d)\<rparr>)"
proof (cases "find (row_matches (Fin q)) (books d)")
  case None
  then show ?thesis
    by (simp add: orm_deleteBook_def findByPk_finite filter_no_match list_ex_find)
next
  case (Some b)
  then have "row_matches (Fin q) b" by (simp add: find_row_matches)
  then show ?thesis using Some
    by (simp add: orm_deleteBook_def findByPk_finite destroy_def filter_same_id list_ex_find
        build_fields)
qed

lemma deleted_is_gone:
  "find (row_matches i) (filter (\<lambda>r. \<not> row_matches i r) rs) = None"
  by (simp add: find_None_iff)

lemma find_map_preserved:
  "(\<And>x. P (g x) = P x) \<Longrightarrow> find P (map g xs) = map_option g (find P xs)"
  by (induction xs) auto

lemma find_append_new:
  "find P xs = None \<Longrightarrow> P y \<Longrightarrow> find P (xs @ [y]) = Some y"
  by (induction xs) (auto split: if_splits)

lemma find_fresh_id: "find (row_matches (Fin (of_int (next_rowid d)))) (books d) = None"
proof -
  have "\<not> row_matches (Fin (of_int (next_rowid d))) r" if "r \<in> set (books d)" for r
    using next_rowid_fresh [OF that] by (simp add: row_matches_def)
  then show ?thesis by (auto simp: find_None_iff)
qed

lemma raw_createBook_eq:
  "raw_createBook t a now d =
     (Inr (inserted t a (CURRENT_TIMESTAMP now) d),
      d\<lparr>books := books d @ [inserted t a (CURRENT_TIMESTAMP now) d],
        sqlite_sequence := next_rowid d\<rparr>)"
proof -
  have "row_matches (Fin (of_int (next_rowid d))) (inserted t a (CURRENT_TIMESTAMP now) d)"
    by (simp add: row_matches_def inserted_def)
  then have "find (row_matches (Fin (of_int (next_rowid d))))
               (books d @ [inserted t a (CURRENT_TIMESTAMP now) d])
             = Some (inserted t a (CURRENT_TIMESTAMP now) d)"
    using find_fresh_id [of d] by (rule find_append_new [rotated])
  then show ?thesis
    by (simp add: raw_createBook_def Let_def select_by_id_def inserted_def mapRowToBook_row)
qed

lemma orm_createBook_eq:
  "orm_createBook t a now d =
     (Inr (inserted (trim t) (trim a) (toISOString now) d),
      d\<lparr>books := books d @ [inserted (trim t) (trim a) (DATE_stringify now) d],
        sqlite_sequence := next_rowid d\<rparr>)"
  by (simp add: orm_createBook_def Book_create_def validate_rating_def Let_def inserted_def
      plain_def)

lemma inserted_fields:
  "id' (inserted t a ts d) = next_rowid d" "status (inserted t a ts d) = UNREAD"
  "rating (inserted t a ts d) = Fin 0" "title (inserted t a ts d) = t"
  "author (inserted t a ts d) = a" "createdAt (inserted t a ts d) = ts"
  by (simp_all add: inserted_def)

lemma rendered_fields:
  "id' (mapRowToBook r) = id' r" "status (mapRowToBook r) = status r"
  "rating (mapRowToBook r) = rating r" "title (mapRowToBook r) = title r"
  "author (mapRowToBook r) = author r"
  "id' (plain b) = id' b" "status (plain b) = status b"
  "rating (plain b) = rating b" "title (plain b) = title b"
  "author (plain b) = author b"
  by (simp_all add: mapRowToBook_def plain_def)

lemma fresh_id_not_listed:
  "next_rowid d \<notin> id' ` set (books d)"
  using next_rowid_fresh [of _ d] by force

lemma store_fields:
  "createBook raw_store = raw_createBook" "getAllBooks raw_store = raw_getAllBooks"
  "toggleBookStatus raw_store = raw_toggleBookStatus" "deleteBook raw_store = raw_deleteBook"
  "updateBookRating raw_store = raw_updateBookRating"
  "createBook orm_store = orm_createBook" "getAllBooks orm_store = orm_getAllBooks"
  "toggleBookStatus orm_store = orm_toggleBookStatus" "deleteBook orm_store = orm_deleteBook"
  "updateBookRating orm_store = orm_updateBookRating"
  by (simp_all add: raw_store_def orm_store_def)

lemma toggled_involution: "toggled (toggled s) = s" "toggled s \<noteq> s"
  by (cases s; simp add: toggled_def)+

lemma raw_toggle_found:
  assumes "select_by_id i d = Some r"
  shows "raw_toggleBookStatus i d =
           (Inr (Some (mapRowToBook (r\<lparr>status := toggled (status r)\<rparr>))),
            d\<lparr>books := map (\<lambda>x. if row_matches i x then x\<lparr>status := toggled (status x)\<rparr> else x)
                             (books d)\<rparr>)"
    and "select_by_id i (snd (raw_toggleBookStatus i d)) = Some (r\<lparr>status := toggled (status r)\<rparr>)"
proof -
  let ?g = "\<lambda>x. if row_matches i x then x\<lparr>status := toggled (status x)\<rparr> else x"
  have found: "find (row_matches i) (books d) = Some r"
    using assms by (simp add: select_by_id_def)
  then have m: "row_matches i r" by (simp add: find_row_matches)
  have keep: "row_matches i (?g x) = row_matches i x" for x
    by (simp add: row_matches_def)
  have "find (row_matches i) (map ?g (books d)) = map_option ?g (find (row_matches i) (books d))"
    using keep by (rule find_map_preserved)
  then have after: "find (row_matches i) (map ?g (books d)) = Some (r\<lparr>status := toggled (status r)\<rparr>)"
    using found m by simp
  have some: "length (filter (row_matches i) (books d)) \<noteq> 0"
    using found no_match_length [of i "books d"] by simp
  show "raw_toggleBookStatus i d =
           (Inr (Some (mapRowToBook (r\<lparr>status := toggled (status r)\<rparr>))),
            d\<lparr>books := map ?g (books d)\<rparr>)"
    using after some by (simp add: raw_toggleBookStatus_def Let_def select_by_id_def)
  then show "select_by_id i (snd (raw_toggleBookStatus i d)) = Some (r\<lparr>status := toggled (status r)\<rparr>)"
    using after by (simp add: select_by_id_def)
qed

lemma orm_toggle_found:
  assumes "select_by_id i d = Some r"
  shows "orm_toggleBookStatus i d =
           (Inr (Some (plain (build (r\<lparr>status := toggled (status r)\<rparr>)))),
            d\<lparr>books := map (\<lambda>x. if id' x = id' r then x\<lparr>status := toggled (status r)\<rparr> else x)
                             (books d)\<rparr>)"
    and "select_by_id i (snd (orm_toggleBookStatus i d)) = Some (r\<lparr>status := toggled (status r)\<rparr>)"
proof -
  let ?g = "\<lambda>x. if id' x = id' r then x\<lparr>status := toggled (status r)\<rparr> else x"
  have found: "find (row_matches i) (books d) = Some r"
    using assms by (simp add: select_by_id_def)
  then have m: "row_matches i r" by (simp add: find_row_matches)
  have keep: "row_matches i (?g x) = row_matches i x" for x
    by (simp add: row_matches_def)
  have "find (row_matches i) (map ?g (books d)) = map_option ?g (find (row_matches i) (books d))"
    using keep by (rule find_map_preserved)
  then have after: "find (row_matches i) (map ?g (books d)) = Some (r\<lparr>status := toggled (status r)\<rparr>)"
    using found by simp
  show "orm_toggleBookStatus i d =
           (Inr (Some (plain (build (r\<lparr>status := toggled (status r)\<rparr>)))),
            d\<lparr>books := map ?g (books d)\<rparr>)"
    by (simp add: orm_toggleBookStatus_def findByPk_found [OF found] update_status_def Let_def
        build_fields build_update)
  then show "select_by_id i (snd (orm_toggleBookStatus i d)) = Some (r\<lparr>status := toggled (status r)\<rparr>)"
    using after by (simp add: select_by_id_def)
qed

lemma list_all2_map_self:
  "(\<And>x. x \<in> set xs \<Longrightarrow> Q x (g x)) \<Longrightarrow> list_all2 Q xs (map g xs)"
  by (induction xs) auto

lemma raw_rating_found:
  assumes "select_by_id i d = Some r"
  shows "raw_updateBookRating i rt d =
           (Inr (Some (mapRowToBook (r\<lparr>rating := rt\<rparr>))),
            d\<lparr>books := map (\<lambda>x. if row_matches i x then x\<lparr>rating := rt\<rparr> else x) (books d)\<rparr>)"
proof -
  let ?g = "\<lambda>x. if row_matches i x then x\<lparr>rating := rt\<rparr> else x"
  have found: "find (row_matches i) (books d) = Some r"
    using assms by (simp add: select_by_id_def)
  then have m: "row_matches i r" by (simp add: find_row_matches)
  have keep: "row_matches i (?g x) = row_matches i x" for x
    by (simp add: row_matches_def)
  have "find (row_matches i) (map ?g (books d)) = map_option ?g (find (row_matches i) (books d))"
    using keep by (rule find_map_preserved)
  then have after: "find (row_matches i) (map ?g (books d)) = Some (r\<lparr>rating := rt\<rparr>)"
    using found m by simp
  have some: "length (filter (row_matches i) (books d)) \<noteq> 0"
    using found no_match_length [of i "books d"] by simp
  show ?thesis
    using after some by (simp add: raw_updateBookRating_def Let_def select_by_id_def)
qed

lemma orm_rating_found:
  assumes "select_by_id i d = Some r" and "validate_rating rt"
  shows "orm_updateBookRating i rt d =
           (Inr (Some (plain (build (r\<lparr>rating := rt\<rparr>)))),
            d\<lparr>books := map (\<lambda>x. if row_matches i x then x\<lparr>rating := rt\<rparr> else x) (books d)\<rparr>)"
proof -
  have found: "find (row_matches i) (books d) = Some r"
    using assms by (simp add: select_by_id_def)
  then have m: "row_matches i r" by (simp add: find_row_matches)
  show ?thesis
    using assms(2)
    by (simp add: orm_updateBookRating_def findByPk_found [OF found] update_rating_def
        row_matches_same_id [OF m] build_fields build_update)
qed

lemma validate_rating_int: "1 \<le> n \<Longrightarrow> n \<le> 5 \<Longrightarrow> validate_rating (Fin (of_int n))"
  by (simp add: validate_rating_def)

lemma rated_rows:
  assumes "select_by_id i d = Some r"
  shows "r\<lparr>rating := rt\<rparr> \<in> set (map (\<lambda>x. if row_matches i x then x\<lparr>rating := rt\<rparr> else x) (books d))"
    and "\<forall>x \<in> set (map (\<lambda>x. if row_matches i x then x\<lparr>rating := rt\<rparr> else x) (books d)).
           id' x = id' r \<longrightarrow> rating x = rt"
proof -
  have found: "find (row_matches i) (books d) = Some r"
    using assms by (simp add: select_by_id_def)
  then have m: "row_matches i r" and mem: "r \<in> set (books d)"
    by (simp_all add: find_row_matches)
  show "r\<lparr>rating := rt\<rparr> \<in> set (map (\<lambda>x. if row_matches i x then x\<lparr>rating := rt\<rparr> else x) (books d))"
    using m mem by force
  show "\<forall>x \<in> set (map (\<lambda>x. if row_matches i x then x\<lparr>rating := rt\<rparr> else x) (books d)).
           id' x = id' r \<longrightarrow> rating x = rt"
    by (auto simp: row_matches_same_id [OF m])
qed

lemma listed_rated:
  assumes "select_by_id i d = Some r"
    and "\<And>x. id' (f x) = id' x" and "\<And>x. rating (f x) = rating x"
  shows "f (r\<lparr>rating := rt\<rparr>)
           \<in> set (map f (order_by_createdAt_desc
                 (map (\<lambda>x. if row_matches i x then x\<lparr>rating := rt\<rparr> else x) (books d))))"
    and "\<forall>x \<in> set (map f (order_by_createdAt_desc
                 (map (\<lambda>x. if row_matches i x then x\<lparr>rating := rt\<rparr> else x) (books d)))).
           id' x = id' r \<longrightarrow> rating x = rt"
proof -
  let ?rows = "map (\<lambda>x. if row_matches i x then x\<lparr>rating := rt\<rparr> else x) (books d)"
  have s: "set (map f (order_by_createdAt_desc ?rows)) = f ` set ?rows"
    by (simp only: set_map order_by_set)
  have "r\<lparr>rating := rt\<rparr> \<in> set ?rows" by (rule rated_rows(1) [OF assms(1)])
  then show "f (r\<lparr>rating := rt\<rparr>) \<in> set (map f (order_by_createdAt_desc ?rows))"
    unfolding s by (rule imageI)
  have all: "\<forall>x \<in> set ?rows. id' x = id' r \<longrightarrow> rating x = rt"
    by (rule rated_rows(2) [OF assms(1)])
  show "\<forall>x \<in> set (map f (order_by_createdAt_desc ?rows)). id' x = id' r \<longrightarrow> rating x = rt"
    unfolding s
  proof (intro ballI impI)
    fix x assume "x \<in> f ` set ?rows" and e: "id' x = id' r"
    then obtain y where y: "y \<in> set ?rows" and x: "x = f y" by blast
    from e x have "id' y = id' r" by (simp add: assms(2))
    with all y have "rating y = rt" by blast
    then show "rating x = rt" by (simp add: x assms(3))
  qed
qed

lemma rating_out_of_range_400:
  assumes "js_lt (Number rv) (Num (Fin 1)) \<or> js_gt (Number rv) (Num (Fin 5))"
  shows "statusCode (fst (patch_api_books_id_rating S seg rv d)) = 400"
    and "snd (patch_api_books_id_rating S seg rv d) = d"
    and "patch_api_books_id_rating S seg rv d = patch_api_books_id_rating S' seg rv d"
  using assms by (simp_all add: patch_api_books_id_rating_def Let_def)

lemmas number_eval = StringToNumber_def trim_def is_ws_def NonDecimalIntegerLiteral_def
  StrDecimalLiteral_def StrUnsignedDecimalLiteral_def ExponentPart_opt_def DecimalDigits_def
  radix_value_def digit_value_def is_digit_def is_hex_digit_def is_octal_digit_def
  is_binary_digit_def scale10_def Let_def

lemma number_samples:
  "StringToNumber ''1.5'' = Num (Fin (3/2))"
  "StringToNumber ''1'' = Num (Fin 1)"
  "StringToNumber ''abc'' = NaN"
  "StringToNumber ''12abc'' = NaN"
  by (simp_all add: number_eval)

lemmas text_eval = CURRENT_TIMESTAMP_def DATE_stringify_def toISOString_def pad2_def pad3_def
  pad4_def digit_char_def

lemmas parse_eval = DATE_parse_def radix_value_def digit_value_def is_digit_def

lemma post_missing_or_empty_rejected:
  "falsy tt \<or> falsy au \<Longrightarrow>
     post_api_books S tt au now d
       = (\<lparr>statusCode = 400, body = Message ''Title and author are required''\<rparr>, d)"
  by (simp add: post_api_books_def)

lemma map_no_match:
  "find (row_matches i) rs = None \<Longrightarrow> map (\<lambda>x. if row_matches i x then g x else x) rs = rs"
  by (rule map_idI) (auto simp: find_None_iff)

lemma no_match_filter: "find P xs = None \<Longrightarrow> filter P xs = []"
  by (auto simp: find_None_iff filter_empty_conv)

lemma raw_toggle_missing:
  "find (row_matches i) (books d) = None \<Longrightarrow> raw_toggleBookStatus i d = (Inr None, d)"
  by (simp add: raw_toggleBookStatus_def Let_def no_match_filter map_no_match)

lemma raw_rating_missing:
  "find (row_matches i) (books d) = None \<Longrightarrow> raw_updateBookRating i rt d = (Inr None, d)"
  by (simp add: raw_updateBookRating_def Let_def no_match_filter map_no_match)

lemma orm_toggle_missing:
  "find (row_matches (Fin q)) (books d) = None \<Longrightarrow> orm_toggleBookStatus (Fin q) d = (Inr None, d)"
  by (simp add: orm_toggleBookStatus_def findByPk_finite)

lemma orm_rating_missing:
  "find (row_matches (Fin q)) (books d) = None \<Longrightarrow> orm_updateBookRating (Fin q) rt d = (Inr None, d)"
  by (simp add: orm_updateBookRating_def findByPk_finite)

lemma unique_row:
  assumes "distinct (map id' rs)" and "r \<in> set rs" and "row_matches i r"
  shows "map (\<lambda>x. if row_matches i x then x\<lparr>status := toggled (status x)\<rparr> else x) rs
         = map (\<lambda>x. if id' x = id' r then x\<lparr>status := toggled (status r)\<rparr> else x) rs"
proof (rule map_cong [OF refl])
  fix x assume x: "x \<in> set rs"
  have inj: "inj_on id' (set rs)" using assms(1) by (simp add: distinct_map)
  have "x = r" if "id' x = id' r"
    using inj x assms(2) that by (auto simp: inj_on_def)
  then show "(if row_matches i x then x\<lparr>status := toggled (status x)\<rparr> else x)
           = (if id' x = id' r then x\<lparr>status := toggled (status r)\<rparr> else x)"
    by (auto simp: row_matches_same_id [OF assms(3)])
qed

lemma shelf_matches:
  "\<not> row_matches (Fin (3/2)) dune" "\<not> row_matches (Fin (3/2)) emma"
  "row_matches (Fin 1) dune" "\<not> row_matches (Fin 1) emma"
  by (simp_all add: row_matches_def dune_def emma_def)

lemma empty_db_next: "next_rowid empty_db = 1"
  by (simp add: next_rowid_def empty_db_def)

lemma noon_text:
  "CURRENT_TIMESTAMP noon = ''2024-01-01 12:00:00''"
  "DATE_stringify noon = ''2024-01-01 12:00:00.000 +00:00''"
  "toISOString noon = ''2024-01-01T12:00:00.000Z''"
  by (simp_all add: text_eval noon_def)

lemma later_text:
  "CURRENT_TIMESTAMP later = ''2024-01-01 12:00:30''"
  "DATE_stringify later = ''2024-01-01 12:00:30.250 +00:00''"
  "toISOString later = ''2024-01-01T12:00:30.250Z''"
  by (simp_all add: text_eval later_def)

lemma parse_samples:
  "DATE_parse ''2024-01-01 12:00:00'' = noon"
  "DATE_parse ''2024-01-01 12:00:00.000 +00:00'' = noon"
  "DATE_parse ''2024-01-01 12:00:30.250 +00:00'' = later"
  by (simp_all add: parse_eval noon_def later_def)

lemma served_samples:
  "plain (build dune) = dune\<lparr>createdAt := ''2024-01-01T12:00:00.000Z''\<rparr>"
  "plain (build emma) = emma\<lparr>createdAt := ''2024-01-01T12:00:30.250Z''\<rparr>"
  "plain (build ubik) = ubik\<lparr>createdAt := ''2024-01-01T12:00:00.000Z''\<rparr>"
  by (simp_all add: plain_def build_def dune_def emma_def ubik_def parse_samples noon_text
      later_text)

lemma trim_samples:
  "trim ''   '' = ''''" "trim ''Herbert'' = ''Herbert''" "trim '' Dune'' = ''Dune''"
  "trim ''Dune'' = ''Dune''" "trim [] = []"
  by (simp_all add: trim_def is_ws_def)

lemma shelf_next: "next_rowid shelf = 3"
  by (simp add: next_rowid_def shelf_def dune_def emma_def)

lemma shelf_distinct: "distinct (map id' (books shelf))"
  by (simp add: shelf_def dune_def emma_def)

lemma shelf_select: "select_by_id (Fin 1) shelf = Some dune"
  by (simp add: select_by_id_def shelf_def shelf_matches)

lemma digit_value_nth: "k < 10 \<Longrightarrow> digit_value (''0123456789'' ! k) = k"
proof -
  assume "k < 10"
  then have "k = 0 \<or> k = 1 \<or> k = 2 \<or> k = 3 \<or> k = 4 \<or> k = 5 \<or> k = 6 \<or> k = 7
    \<or> k = 8 \<or> k = 9"
    by arith
  then show ?thesis
    by (elim disjE) (simp_all add: digit_value_def is_digit_def)
qed

lemma digit_value_digit_char: "digit_value (digit_char d) = d mod 10"
  by (simp add: digit_char_def digit_value_nth)

lemma digit_char_mod: "a mod 10 = b mod 10 \<Longrightarrow> digit_char a = digit_char b"
  by (simp add: digit_char_def)

lemma mod_mult_div: "0 < b \<Longrightarrow> (m::nat) mod (b * q) div b = m div b mod q"
proof -
  assume b: "0 < b"
  have "m mod (b * q) = b * (m div b mod q) + m mod b" by (rule mod_mult2_eq)
  then have "m mod (b * q) div b = (b * (m div b mod q) + m mod b) div b" by simp
  also have "\<dots> = m div b mod q" using b by simp
  finally show ?thesis .
qed

lemma low_digits_shifted:
  "(m::nat) mod 100 div 10 = m div 10 mod 10"
  "m mod 1000 div 10 = m div 10 mod 100"
  "m mod 1000 div 100 = m div 100 mod 10"
  "m mod 10000 div 10 = m div 10 mod 1000"
  "m mod 10000 div 100 = m div 100 mod 100"
  "m mod 10000 div 1000 = m div 1000 mod 10"
proof -
  show "m mod 100 div 10 = m div 10 mod 10" using mod_mult_div [of 10 m 10] by simp
  show "m mod 1000 div 10 = m div 10 mod 100" using mod_mult_div [of 10 m 100] by simp
  show "m mod 1000 div 100 = m div 100 mod 10" using mod_mult_div [of 100 m 10] by simp
  show "m mod 10000 div 10 = m div 10 mod 1000" using mod_mult_div [of 10 m 1000] by simp
  show "m mod 10000 div 100 = m div 100 mod 100" using mod_mult_div [of 100 m 100] by simp
  show "m mod 10000 div 1000 = m div 1000 mod 10" using mod_mult_div [of 1000 m 10] by simp
qed

lemma last_digit_of_low:
  "(m::nat) mod 100 mod 10 = m mod 10" "m mod 1000 mod 10 = m mod 10"
  "m mod 10000 mod 10 = m mod 10"
  by (simp_all add: mod_mod_cancel)

lemma digit_of_low:
  "(n::nat) mod 10000 div 1000 mod 10 = n div 1000 mod 10"
  "(n::nat) mod 10000 div 100 mod 10 = n div 100 mod 10"
  "(n::nat) mod 10000 div 10 mod 10 = n div 10 mod 10"
  "(n::nat) mod 1000 div 100 mod 10 = n div 100 mod 10"
  "(n::nat) mod 1000 div 10 mod 10 = n div 10 mod 10"
  "(n::nat) mod 100 div 10 mod 10 = n div 10 mod 10"
  by (simp_all only: low_digits_shifted last_digit_of_low mod_mod_trivial)

lemma low_digits:
  "(n::nat) mod 100 = 10 * (n div 10 mod 10) + n mod 10"
  "(n::nat) mod 1000 = 10 * (10 * (n div 100 mod 10) + n div 10 mod 10) + n mod 10"
  "(n::nat) mod 10000
     = 10 * (10 * (10 * (n div 1000 mod 10) + n div 100 mod 10) + n div 10 mod 10) + n mod 10"
proof -
  show two: "m mod 100 = 10 * (m div 10 mod 10) + m mod 10" for m :: nat
    using mod_mult2_eq [of m 10 10] by simp
  have shift: "m div 10 div 10 = m div 100" "m div 10 div 100 = m div 1000" for m :: nat
    by (simp_all add: div_mult2_eq [symmetric])
  show three: "m mod 1000 = 10 * (10 * (m div 100 mod 10) + m div 10 mod 10) + m mod 10"
    for m :: nat
  proof -
    have "m mod 1000 = 10 * (m div 10 mod 100) + m mod 10"
      using mod_mult2_eq [of m 10 100] by simp
    moreover have "m div 10 mod 100 = 10 * (m div 10 div 10 mod 10) + m div 10 mod 10"
      by (rule two)
    ultimately show ?thesis by (simp only: shift)
  qed
  have "n mod 10000 = 10 * (n div 10 mod 1000) + n mod 10"
    using mod_mult2_eq [of n 10 1000] by simp
  moreover have "n div 10 mod 1000
       = 10 * (10 * (n div 10 div 100 mod 10) + n div 10 div 10 mod 10) + n div 10 mod 10"
    by (rule three)
  ultimately show "n mod 10000
     = 10 * (10 * (10 * (n div 1000 mod 10) + n div 100 mod 10) + n div 10 mod 10) + n mod 10"
    by (simp only: shift)
qed

lemma radix_pad:
  "radix_value 10 (pad2 n) = n mod 100"
  "radix_value 10 (pad3 n) = n mod 1000"
  "radix_value 10 (pad4 n) = n mod 10000"
proof -
  have "radix_value 10 (pad2 n) = 10 * (n div 10 mod 10) + n mod 10"
    by (simp add: radix_value_def pad2_def digit_value_digit_char)
  then show "radix_value 10 (pad2 n) = n mod 100" by (simp only: low_digits)
  have "radix_value 10 (pad3 n) = 10 * (10 * (n div 100 mod 10) + n div 10 mod 10) + n mod 10"
    by (simp add: radix_value_def pad3_def digit_value_digit_char)
  then show "radix_value 10 (pad3 n) = n mod 1000" by (simp only: low_digits)
  have "radix_value 10 (pad4 n)
          = 10 * (10 * (10 * (n div 1000 mod 10) + n div 100 mod 10) + n div 10 mod 10) + n mod 10"
    by (simp add: radix_value_def pad4_def digit_value_digit_char)
  then show "radix_value 10 (pad4 n) = n mod 10000" by (simp only: low_digits)
qed

lemma pad_of_low:
  "pad2 (n mod 100) = pad2 n" "pad3 (n mod 1000) = pad3 n" "pad4 (n mod 10000) = pad4 n"
proof -
  have c: "digit_char (n mod 100 div 10) = digit_char (n div 10)"
    "digit_char (n mod 100) = digit_char n"
    "digit_char (n mod 1000 div 100) = digit_char (n div 100)"
    "digit_char (n mod 1000 div 10) = digit_char (n div 10)"
    "digit_char (n mod 1000) = digit_char n"
    "digit_char (n mod 10000 div 1000) = digit_char (n div 1000)"
    "digit_char (n mod 10000 div 100) = digit_char (n div 100)"
    "digit_char (n mod 10000 div 10) = digit_char (n div 10)"
    "digit_char (n mod 10000) = digit_char n"
    by (rule digit_char_mod, simp only: digit_of_low last_digit_of_low)+
  show "pad2 (n mod 100) = pad2 n" by (simp only: pad2_def c)
  show "pad3 (n mod 1000) = pad3 n" by (simp only: pad3_def c)
  show "pad4 (n mod 10000) = pad4 n" by (simp only: pad4_def c)
qed

lemma pad_lengths: "length (pad2 n) = 2" "length (pad3 n) = 3" "length (pad4 n) = 4"
  by (simp_all add: pad2_def pad3_def pad4_def)

lemma parse_stringify:
  "DATE_parse (DATE_stringify t) =
     \<lparr>year = year t mod 10000, month = month t mod 100, day = day t mod 100,
      hour = hour t mod 100, minute = minute t mod 100, second = second t mod 100,
      millis = millis t mod 1000\<rparr>"
  by (simp add: DATE_parse_def DATE_stringify_def pad_lengths radix_pad)

lemma iso_of_stored: "toISOString (DATE_parse (DATE_stringify t)) = toISOString t"
  by (simp add: parse_stringify toISOString_def pad_of_low)

lemma served_inserted:
  "plain (build (inserted t a (DATE_stringify now) d)) = inserted t a (toISOString now) d"
  by (simp add: plain_def build_def inserted_def iso_of_stored)

lemma inserted_restamped:
  "(inserted t a ts d)\<lparr>createdAt := ts'\<rparr> = inserted t a ts' d"
  by (simp add: inserted_def)

lemma orm_getAllBooks_eq:
  "orm_getAllBooks d = (Inr (map (\<lambda>r. plain (build r)) (order_by_createdAt_desc (books d))), d)"
  by (simp add: orm_getAllBooks_def findAll_createdAt_desc_def comp_def)

lemma served_fields:
  "id' (plain (build r)) = id' r" "status (plain (build r)) = status r"
  "rating (plain (build r)) = rating r" "title (plain (build r)) = title r"
  "author (plain (build r)) = author r"
  by (simp_all add: plain_def build_def)


lemma of_char_digit_char: "(of_char (digit_char d) :: nat) = 48 + d mod 10"
proof -
  have "d mod 10 < 10" by simp
  then have "d mod 10 = 0 \<or> d mod 10 = 1 \<or> d mod 10 = 2 \<or> d mod 10 = 3 \<or> d mod 10 = 4
    \<or> d mod 10 = 5 \<or> d mod 10 = 6 \<or> d mod 10 = 7 \<or> d mod 10 = 8 \<or> d mod 10 = 9"
    by arith
  then show ?thesis
    by (elim disjE) (simp_all add: digit_char_def)
qed

lemma digit_char_less: "(digit_char a < digit_char b) = (a mod 10 < b mod 10)"
  by (simp add: less_char_def of_char_digit_char)

lemma digit_char_eq: "(digit_char a = digit_char b) = (a mod 10 = b mod 10)"
proof
  assume "digit_char a = digit_char b"
  then have "(of_char (digit_char a) :: nat) = of_char (digit_char b)" by simp
  then show "a mod 10 = b mod 10" by (simp add: of_char_digit_char)
next
  assume "a mod 10 = b mod 10"
  then show "digit_char a = digit_char b" by (rule digit_char_mod)
qed

lemma lex_div_mod:
  "0 < k \<Longrightarrow> ((a::nat) div k < b div k \<or> a div k = b div k \<and> a mod k < b mod k) = (a < b)"
proof
  assume k: "0 < k" and l: "a div k < b div k \<or> a div k = b div k \<and> a mod k < b mod k"
  from l show "a < b"
  proof
    assume "a div k < b div k"
    show "a < b"
    proof (rule ccontr)
      assume "\<not> a < b"
      then have "b \<le> a" by simp
      then have "b div k \<le> a div k" by (rule div_le_mono)
      with \<open>a div k < b div k\<close> show False by simp
    qed
  next
    assume e: "a div k = b div k \<and> a mod k < b mod k"
    then have d: "a div k = b div k" and m: "a mod k < b mod k" by simp_all
    have "k * (b div k) + a mod k < k * (b div k) + b mod k"
      using m by (simp only: nat_add_left_cancel_less)
    then have "k * (a div k) + a mod k < k * (b div k) + b mod k" by (simp only: d)
    then show "a < b" by (simp only: mult_div_mod_eq)
  qed
next
  assume k: "0 < k" and l: "a < b"
  then have le: "a div k \<le> b div k" by (simp add: div_le_mono)
  show "a div k < b div k \<or> a div k = b div k \<and> a mod k < b mod k"
  proof (cases "a div k = b div k")
    case True
    have "k * (a div k) + a mod k < k * (b div k) + b mod k"
      using l by (simp only: mult_div_mod_eq)
    then have "k * (b div k) + a mod k < k * (b div k) + b mod k" by (simp only: True)
    then have "a mod k < b mod k" by (simp only: nat_add_left_cancel_less)
    with True show ?thesis by simp
  next
    case False
    with le show ?thesis by simp
  qed
qed

lemma eq_div_mod: "((a::nat) div k = b div k \<and> a mod k = b mod k) = (a = b)"
proof
  assume e: "a div k = b div k \<and> a mod k = b mod k"
  then have "k * (a div k) + a mod k = k * (b div k) + b mod k" by simp
  then show "a = b" by (simp only: mult_div_mod_eq)
next
  assume "a = b" then show "a div k = b div k \<and> a mod k = b mod k" by simp
qed

lemma digits_less:
  "0 < k \<Longrightarrow>
     ((x::nat) div k mod 10 < y div k mod 10 \<or> x div k mod 10 = y div k mod 10 \<and> x mod k < y mod k)
       = (x mod (k * 10) < y mod (k * 10))"
proof -
  assume k: "0 < k"
  have d: "n mod (k * 10) div k = n div k mod 10" for n :: nat
    using k by (rule mod_mult_div)
  have m: "n mod (k * 10) mod k = n mod k" for n :: nat
    by (simp add: mod_mod_cancel)
  show ?thesis
    using lex_div_mod [OF k, of "x mod (k * 10)" "y mod (k * 10)"] by (simp only: d m)
qed

lemma digits_eq:
  "0 < k \<Longrightarrow>
     ((x::nat) div k mod 10 = y div k mod 10 \<and> x mod k = y mod k)
       = (x mod (k * 10) = y mod (k * 10))"
proof -
  assume k: "0 < k"
  have d: "n mod (k * 10) div k = n div k mod 10" for n :: nat
    using k by (rule mod_mult_div)
  have m: "n mod (k * 10) mod k = n mod k" for n :: nat
    by (simp add: mod_mod_cancel)
  show ?thesis
    using eq_div_mod [of "x mod (k * 10)" k "y mod (k * 10)"] by (simp only: d m)
qed

lemma digits_less_numeral:
  "((x::nat) div 10 mod 10 < y div 10 mod 10 \<or> x div 10 mod 10 = y div 10 mod 10 \<and> x mod 10 < y mod 10)
     = (x mod 100 < y mod 100)"
  "((x::nat) div 100 mod 10 < y div 100 mod 10
      \<or> x div 100 mod 10 = y div 100 mod 10 \<and> x mod 100 < y mod 100)
     = (x mod 1000 < y mod 1000)"
  "((x::nat) div 1000 mod 10 < y div 1000 mod 10
      \<or> x div 1000 mod 10 = y div 1000 mod 10 \<and> x mod 1000 < y mod 1000)
     = (x mod 10000 < y mod 10000)"
proof -
  show "((x::nat) div 10 mod 10 < y div 10 mod 10 \<or> x div 10 mod 10 = y div 10 mod 10 \<and> x mod 10 < y mod 10)
     = (x mod 100 < y mod 100)"
    using digits_less [of 10 x y] by simp
  show "((x::nat) div 100 mod 10 < y div 100 mod 10
      \<or> x div 100 mod 10 = y div 100 mod 10 \<and> x mod 100 < y mod 100)
     = (x mod 1000 < y mod 1000)"
    using digits_less [of 100 x y] by simp
  show "((x::nat) div 1000 mod 10 < y div 1000 mod 10
      \<or> x div 1000 mod 10 = y div 1000 mod 10 \<and> x mod 1000 < y mod 1000)
     = (x mod 10000 < y mod 10000)"
    using digits_less [of 1000 x y] by simp
qed

lemma digits_eq_numeral:
  "((x::nat) div 10 mod 10 = y div 10 mod 10 \<and> x mod 10 = y mod 10) = (x mod 100 = y mod 100)"
  "((x::nat) div 100 mod 10 = y div 100 mod 10 \<and> x mod 100 = y mod 100)
     = (x mod 1000 = y mod 1000)"
  "((x::nat) div 1000 mod 10 = y div 1000 mod 10 \<and> x mod 1000 = y mod 1000)
     = (x mod 10000 = y mod 10000)"
proof -
  show "((x::nat) div 10 mod 10 = y div 10 mod 10 \<and> x mod 10 = y mod 10) = (x mod 100 = y mod 100)"
    using digits_eq [of 10 x y] by simp
  show "((x::nat) div 100 mod 10 = y div 100 mod 10 \<and> x mod 100 = y mod 100)
     = (x mod 1000 = y mod 1000)"
    using digits_eq [of 100 x y] by simp
  show "((x::nat) div 1000 mod 10 = y div 1000 mod 10 \<and> x mod 1000 = y mod 1000)
     = (x mod 10000 = y mod 10000)"
    using digits_eq [of 1000 x y] by simp
qed

lemma pad_less:
  "(pad2 a < pad2 b) = (a mod 100 < b mod 100)"
  "(pad3 a < pad3 b) = (a mod 1000 < b mod 1000)"
  "(pad4 a < pad4 b) = (a mod 10000 < b mod 10000)"
proof -
  have "(pad2 a < pad2 b)
      = (a div 10 mod 10 < b div 10 mod 10 \<or> a div 10 mod 10 = b div 10 mod 10 \<and> a mod 10 < b mod 10)"
    by (simp add: pad2_def digit_char_less digit_char_eq)
  then show "(pad2 a < pad2 b) = (a mod 100 < b mod 100)"
    by (simp only: digits_less_numeral)
  have "(pad3 a < pad3 b)
      = (a div 100 mod 10 < b div 100 mod 10 \<or> a div 100 mod 10 = b div 100 mod 10 \<and>
          (a div 10 mod 10 < b div 10 mod 10 \<or> a div 10 mod 10 = b div 10 mod 10 \<and> a mod 10 < b mod 10))"
    by (simp add: pad3_def digit_char_less digit_char_eq)
  then show "(pad3 a < pad3 b) = (a mod 1000 < b mod 1000)"
    by (simp only: digits_less_numeral)
  have "(pad4 a < pad4 b)
      = (a div 1000 mod 10 < b div 1000 mod 10 \<or> a div 1000 mod 10 = b div 1000 mod 10 \<and>
          (a div 100 mod 10 < b div 100 mod 10 \<or> a div 100 mod 10 = b div 100 mod 10 \<and>
            (a div 10 mod 10 < b div 10 mod 10 \<or> a div 10 mod 10 = b div 10 mod 10 \<and> a mod 10 < b mod 10)))"
    by (simp add: pad4_def digit_char_less digit_char_eq)
  then show "(pad4 a < pad4 b) = (a mod 10000 < b mod 10000)"
    by (simp only: digits_less_numeral)
qed

lemma pad_eq:
  "(pad2 a = pad2 b) = (a mod 100 = b mod 100)"
  "(pad3 a = pad3 b) = (a mod 1000 = b mod 1000)"
  "(pad4 a = pad4 b) = (a mod 10000 = b mod 10000)"
proof -
  have "(pad2 a = pad2 b) = (a div 10 mod 10 = b div 10 mod 10 \<and> a mod 10 = b mod 10)"
    by (simp add: pad2_def digit_char_eq)
  then show "(pad2 a = pad2 b) = (a mod 100 = b mod 100)"
    by (simp only: digits_eq_numeral)
  have "(pad3 a = pad3 b)
      = (a div 100 mod 10 = b div 100 mod 10 \<and> (a div 10 mod 10 = b div 10 mod 10 \<and> a mod 10 = b mod 10))"
    by (simp add: pad3_def digit_char_eq)
  then show "(pad3 a = pad3 b) = (a mod 1000 = b mod 1000)"
    by (simp only: digits_eq_numeral)
  have "(pad4 a = pad4 b)
      = (a div 1000 mod 10 = b div 1000 mod 10 \<and> (a div 100 mod 10 = b div 100 mod 10 \<and>
          (a div 10 mod 10 = b div 10 mod 10 \<and> a mod 10 = b mod 10)))"
    by (simp add: pad4_def digit_char_eq)
  then show "(pad4 a = pad4 b) = (a mod 10000 = b mod 10000)"
    by (simp only: digits_eq_numeral)
qed

lemma append_le_same_length:
  "length u = length u' \<Longrightarrow> (u @ v \<le> u' @ v') = (u < u' \<or> u = u' \<and> v \<le> v')"
  for u :: "'a::linorder list"
  by (induct u u' rule: list_induct2) auto

lemma pad_segment_le:
  "(pad2 a @ v \<le> pad2 b @ w) = (a mod 100 < b mod 100 \<or> a mod 100 = b mod 100 \<and> v \<le> w)"
  "(pad3 a @ v \<le> pad3 b @ w) = (a mod 1000 < b mod 1000 \<or> a mod 1000 = b mod 1000 \<and> v \<le> w)"
  "(pad4 a @ v \<le> pad4 b @ w) = (a mod 10000 < b mod 10000 \<or> a mod 10000 = b mod 10000 \<and> v \<le> w)"
  by (simp_all add: append_le_same_length pad_lengths pad_less pad_eq)

lemma lex_pair_le: "((p, u) \<le> (q, w)) = (p < q \<or> p = q \<and> u \<le> w)"
  for p q :: "'a::linorder" and u w :: "'b::order"
  by auto

lemma stamp_le:
  "(CURRENT_TIMESTAMP a @ x \<le> CURRENT_TIMESTAMP b @ y)
     = ((year a mod 10000, month a mod 100, day a mod 100, hour a mod 100, minute a mod 100,
         second a mod 100, x)
        \<le> (year b mod 10000, month b mod 100, day b mod 100, hour b mod 100, minute b mod 100,
           second b mod 100, y))"
proof -
  have "(CURRENT_TIMESTAMP a @ x \<le> CURRENT_TIMESTAMP b @ y)
     = (year a mod 10000 < year b mod 10000 \<or> year a mod 10000 = year b mod 10000 \<and>
         (month a mod 100 < month b mod 100 \<or> month a mod 100 = month b mod 100 \<and>
           (day a mod 100 < day b mod 100 \<or> day a mod 100 = day b mod 100 \<and>
             (hour a mod 100 < hour b mod 100 \<or> hour a mod 100 = hour b mod 100 \<and>
               (minute a mod 100 < minute b mod 100 \<or> minute a mod 100 = minute b mod 100 \<and>
                 (second a mod 100 < second b mod 100 \<or> second a mod 100 = second b mod 100 \<and>
                    x \<le> y))))))"
    by (simp add: CURRENT_TIMESTAMP_def pad_segment_le)
  also have "\<dots> = ((year a mod 10000, month a mod 100, day a mod 100, hour a mod 100, minute a mod 100,
         second a mod 100, x)
        \<le> (year b mod 10000, month b mod 100, day b mod 100, hour b mod 100, minute b mod 100,
           second b mod 100, y))"
    by (simp only: lex_pair_le)
  finally show ?thesis .
qed

lemma parse_stamp:
  "DATE_parse (CURRENT_TIMESTAMP t) =
     \<lparr>year = year t mod 10000, month = month t mod 100, day = day t mod 100,
      hour = hour t mod 100, minute = minute t mod 100, second = second t mod 100,
      millis = 0\<rparr>"
  by (simp add: DATE_parse_def CURRENT_TIMESTAMP_def pad_lengths radix_pad)

lemma stringify_stamp:
  "DATE_stringify t = CURRENT_TIMESTAMP t @ ''.'' @ pad3 (millis t) @ '' +00:00''"
  by (simp add: DATE_stringify_def CURRENT_TIMESTAMP_def)

lemma key_of_stamp:
  "dt_key (DATE_parse (CURRENT_TIMESTAMP t))
     = (year t mod 10000, month t mod 100, day t mod 100, hour t mod 100, minute t mod 100,
        second t mod 100, 0)"
  "dt_key (DATE_parse (DATE_stringify t))
     = (year t mod 10000, month t mod 100, day t mod 100, hour t mod 100, minute t mod 100,
        second t mod 100, millis t mod 1000)"
  by (simp_all add: dt_key_def parse_stamp parse_stringify)

lemma fraction_le:
  "(''.'' @ pad3 m @ '' +00:00'' \<le> ''.'' @ pad3 n @ '' +00:00'') = (m mod 1000 \<le> n mod 1000)"
  "\<not> ''.'' @ pad3 m @ '' +00:00'' \<le> []"
  by (auto simp add: pad_segment_le)

lemma key_last_mono:
  fixes a1 a2 a3 a4 a5 a6 b1 b2 b3 b4 b5 b6 m n :: nat and x y :: string
  assumes "(a1, a2, a3, a4, a5, a6, x) \<le> (b1, b2, b3, b4, b5, b6, y)"
    and "x \<le> y \<Longrightarrow> m \<le> n"
  shows "(a1, a2, a3, a4, a5, a6, m) \<le> (b1, b2, b3, b4, b5, b6, n)"
  using assms by (simp only: lex_pair_le) blast

lemma stored_order_is_time:
  assumes w1: "written_by_a_layer s1" and w2: "written_by_a_layer s2" and le: "s1 \<le> s2"
  shows "dt_key (DATE_parse s1) \<le> dt_key (DATE_parse s2)"
proof -
  from w1 obtain a where c1: "s1 = CURRENT_TIMESTAMP a \<or> s1 = DATE_stringify a"
    unfolding written_by_a_layer_def by blast
  from w2 obtain b where c2: "s2 = CURRENT_TIMESTAMP b \<or> s2 = DATE_stringify b"
    unfolding written_by_a_layer_def by blast
  have step: "dt_key (DATE_parse s1) \<le> dt_key (DATE_parse s2)"
    if e1: "s1 = CURRENT_TIMESTAMP a @ x" and e2: "s2 = CURRENT_TIMESTAMP b @ y"
      and k1: "dt_key (DATE_parse s1)
         = (year a mod 10000, month a mod 100, day a mod 100, hour a mod 100, minute a mod 100,
            second a mod 100, m)"
      and k2: "dt_key (DATE_parse s2)
         = (year b mod 10000, month b mod 100, day b mod 100, hour b mod 100, minute b mod 100,
            second b mod 100, n)"
      and mono: "x \<le> y \<Longrightarrow> m \<le> n"
    for x y m n
  proof -
    from le have "CURRENT_TIMESTAMP a @ x \<le> CURRENT_TIMESTAMP b @ y"
      by (simp only: e1 [symmetric] e2 [symmetric])
    then have "(year a mod 10000, month a mod 100, day a mod 100, hour a mod 100, minute a mod 100,
         second a mod 100, x)
        \<le> (year b mod 10000, month b mod 100, day b mod 100, hour b mod 100, minute b mod 100,
           second b mod 100, y)"
      by (simp only: stamp_le)
    then have "(year a mod 10000, month a mod 100, day a mod 100, hour a mod 100, minute a mod 100,
         second a mod 100, m)
        \<le> (year b mod 10000, month b mod 100, day b mod 100, hour b mod 100, minute b mod 100,
           second b mod 100, n)"
      using mono by (rule key_last_mono)
    then show ?thesis by (simp only: k1 k2)
  qed
  from c1 show ?thesis
  proof
    assume s1: "s1 = CURRENT_TIMESTAMP a"
    from c2 show ?thesis
    proof
      assume s2: "s2 = CURRENT_TIMESTAMP b"
      show ?thesis
      proof (rule step [of "[]" "[]" "0" "0"])
        show "s1 = CURRENT_TIMESTAMP a @ []" by (simp add: s1)
        show "s2 = CURRENT_TIMESTAMP b @ []" by (simp add: s2)
        show "dt_key (DATE_parse s1)
            = (year a mod 10000, month a mod 100, day a mod 100, hour a mod 100,
               minute a mod 100, second a mod 100, 0)"
          by (simp only: s1 key_of_stamp)
        show "dt_key (DATE_parse s2)
            = (year b mod 10000, month b mod 100, day b mod 100, hour b mod 100,
               minute b mod 100, second b mod 100, 0)"
          by (simp only: s2 key_of_stamp)
        show "([]::string) \<le> [] \<Longrightarrow> (0::nat) \<le> 0" by simp
      qed
    next
      assume s2: "s2 = DATE_stringify b"
      show ?thesis
      proof (rule step [of "[]" "''.'' @ pad3 (millis b) @ '' +00:00''" "0" "millis b mod 1000"])
        show "s1 = CURRENT_TIMESTAMP a @ []" by (simp add: s1)
        show "s2 = CURRENT_TIMESTAMP b @ ''.'' @ pad3 (millis b) @ '' +00:00''" by (simp only: s2 stringify_stamp)
        show "dt_key (DATE_parse s1)
            = (year a mod 10000, month a mod 100, day a mod 100, hour a mod 100,
               minute a mod 100, second a mod 100, 0)"
          by (simp only: s1 key_of_stamp)
        show "dt_key (DATE_parse s2)
            = (year b mod 10000, month b mod 100, day b mod 100, hour b mod 100,
               minute b mod 100, second b mod 100, millis b mod 1000)"
          by (simp only: s2 key_of_stamp)
        show "([]::string) \<le> ''.'' @ pad3 (millis b) @ '' +00:00'' \<Longrightarrow> (0::nat) \<le> millis b mod 1000" by simp
      qed
    qed
  next
    assume s1: "s1 = DATE_stringify a"
    from c2 show ?thesis
    proof
      assume s2: "s2 = CURRENT_TIMESTAMP b"
      show ?thesis
      proof (rule step [of "''.'' @ pad3 (millis a) @ '' +00:00''" "[]" "millis a mod 1000" "0"])
        show "s1 = CURRENT_TIMESTAMP a @ ''.'' @ pad3 (millis a) @ '' +00:00''" by (simp only: s1 stringify_stamp)
        show "s2 = CURRENT_TIMESTAMP b @ []" by (simp add: s2)
        show "dt_key (DATE_parse s1)
            = (year a mod 10000, month a mod 100, day a mod 100, hour a mod 100,
               minute a mod 100, second a mod 100, millis a mod 1000)"
          by (simp only: s1 key_of_stamp)
        show "dt_key (DATE_parse s2)
            = (year b mod 10000, month b mod 100, day b mod 100, hour b mod 100,
               minute b mod 100, second b mod 100, 0)"
          by (simp only: s2 key_of_stamp)
        show "''.'' @ pad3 (millis a) @ '' +00:00'' \<le> [] \<Longrightarrow> millis a mod 1000 \<le> 0" by (simp only: fraction_le)
      qed
    next
      assume s2: "s2 = DATE_stringify b"
      show ?thesis
      proof (rule step [of "''.'' @ pad3 (millis a) @ '' +00:00''" "''.'' @ pad3 (millis b) @ '' +00:00''" "millis a mod 1000" "millis b mod 1000"])
        show "s1 = CURRENT_TIMESTAMP a @ ''.'' @ pad3 (millis a) @ '' +00:00''" by (simp only: s1 stringify_stamp)
        show "s2 = CURRENT_TIMESTAMP b @ ''.'' @ pad3 (millis b) @ '' +00:00''" by (simp only: s2 stringify_stamp)
        show "dt_key (DATE_parse s1)
            = (year a mod 10000, month a mod 100, day a mod 100, hour a mod 100,
               minute a mod 100, second a mod 100, millis a mod 1000)"
          by (simp only: s1 key_of_stamp)
        show "dt_key (DATE_parse s2)
            = (year b mod 10000, month b mod 100, day b mod 100, hour b mod 100,
               minute b mod 100, second b mod 100, millis b mod 1000)"
          by (simp only: s2 key_of_stamp)
        show "''.'' @ pad3 (millis a) @ '' +00:00'' \<le> ''.'' @ pad3 (millis b) @ '' +00:00'' \<Longrightarrow> millis a mod 1000 \<le> millis b mod 1000" by (simp only: fraction_le)
      qed
    qed
  qed
qed

lemma order_by_newest_first:
  assumes "\<forall>r\<in>set rs. written_by_a_layer (createdAt r)"
  shows "sorted_wrt (\<lambda>a b. dt_key (DATE_parse (createdAt b)) \<le> dt_key (DATE_parse (createdAt a)))
           (order_by_createdAt_desc rs)"
proof (rule sorted_wrt_mono_rel [OF _ order_by_sorted])
  fix x y
  assume "x \<in> set (order_by_createdAt_desc rs)" "y \<in> set (order_by_createdAt_desc rs)"
    and "createdAt y \<le> createdAt x"
  with assms show "dt_key (DATE_parse (createdAt y)) \<le> dt_key (DATE_parse (createdAt x))"
    by (simp add: order_by_set stored_order_is_time)
qed


section \<open>The two layers side by side\<close>

text \<open>
  C1, as the code has it. Called on the same table, the two layers return the same rows
  in the same order and leave the same table, but for \<open>createdAt\<close>: the raw layer returns
  the column's text, the ORM layer the ISO string of the \<open>Date\<close> it reads from that text;
  and a new row gets \<open>CURRENT_TIMESTAMP\<close> from the raw layer and the ORM's own text of the
  clock from the ORM layer. So far the layers agree for \<open>getAllBooks\<close> always; for
  \<open>createBook\<close> when title and author carry no white space at either end; for \<open>deleteBook\<close>
  at a finite id; for \<open>toggleBookStatus\<close> at a finite id when no two rows share an id, as
  the primary key has it; for \<open>updateBookRating\<close> at a finite id when the rating is from 0
  to 5. (Both layers list rows of equal \<open>createdAt\<close> in table order.)
\<close>

theorem layers_agree:
  "(\<exists>rs. fst (raw_getAllBooks d) = Inr (map mapRowToBook rs)
        \<and> fst (orm_getAllBooks d) = Inr (map plain (map build rs)))
   \<and> snd (raw_getAllBooks d) = snd (orm_getAllBooks d)
   \<and> (trim t = t \<and> trim a = a \<longrightarrow>
        (\<exists>x. fst (raw_createBook t a now d) = Inr (mapRowToBook x)
            \<and> snd (raw_createBook t a now d)
                = d\<lparr>books := books d @ [x], sqlite_sequence := id' x\<rparr>
            \<and> createdAt x = CURRENT_TIMESTAMP now
            \<and> fst (orm_createBook t a now d) = Inr (x\<lparr>createdAt := toISOString now\<rparr>)
            \<and> snd (orm_createBook t a now d)
                = d\<lparr>books := books d @ [x\<lparr>createdAt := DATE_stringify now\<rparr>],
                    sqlite_sequence := id' x\<rparr>))
   \<and> (distinct (map id' (books d)) \<longrightarrow>
        (\<exists>ro. fst (raw_toggleBookStatus (Fin q) d) = Inr (map_option mapRowToBook ro)
             \<and> fst (orm_toggleBookStatus (Fin q) d) = Inr (map_option plain (map_option build ro)))
        \<and> snd (raw_toggleBookStatus (Fin q) d) = snd (orm_toggleBookStatus (Fin q) d))
   \<and> raw_deleteBook (Fin q) d = orm_deleteBook (Fin q) d
   \<and> (validate_rating rt \<longrightarrow>
        (\<exists>ro. fst (raw_updateBookRating (Fin q) rt d) = Inr (map_option mapRowToBook ro)
             \<and> fst (orm_updateBookRating (Fin q) rt d) = Inr (map_option plain (map_option build ro)))
        \<and> snd (raw_updateBookRating (Fin q) rt d) = snd (orm_updateBookRating (Fin q) rt d))"
proof -
  have listing: "(\<exists>rs. fst (raw_getAllBooks d) = Inr (map mapRowToBook rs)
        \<and> fst (orm_getAllBooks d) = Inr (map plain (map build rs)))
      \<and> snd (raw_getAllBooks d) = snd (orm_getAllBooks d)"
    unfolding raw_getAllBooks_def orm_getAllBooks_def findAll_createdAt_desc_def fst_conv snd_conv
    by blast
  have creating: "\<exists>x. fst (raw_createBook t a now d) = Inr (mapRowToBook x)
            \<and> snd (raw_createBook t a now d)
                = d\<lparr>books := books d @ [x], sqlite_sequence := id' x\<rparr>
            \<and> createdAt x = CURRENT_TIMESTAMP now
            \<and> fst (orm_createBook t a now d) = Inr (x\<lparr>createdAt := toISOString now\<rparr>)
            \<and> snd (orm_createBook t a now d)
                = d\<lparr>books := books d @ [x\<lparr>createdAt := DATE_stringify now\<rparr>],
                    sqlite_sequence := id' x\<rparr>"
    if "trim t = t \<and> trim a = a"
    using that
    by (intro exI [of _ "inserted t a (CURRENT_TIMESTAMP now) d"])
      (simp add: raw_createBook_eq orm_createBook_eq mapRowToBook_row inserted_restamped
        inserted_fields)
  have toggling: "(\<exists>ro. fst (raw_toggleBookStatus (Fin q) d) = Inr (map_option mapRowToBook ro)
             \<and> fst (orm_toggleBookStatus (Fin q) d) = Inr (map_option plain (map_option build ro)))
        \<and> snd (raw_toggleBookStatus (Fin q) d) = snd (orm_toggleBookStatus (Fin q) d)"
    if dist: "distinct (map id' (books d))"
  proof (cases "find (row_matches (Fin q)) (books d)")
    case None
    then have "raw_toggleBookStatus (Fin q) d = (Inr None, d)"
      "orm_toggleBookStatus (Fin q) d = (Inr None, d)"
      by (simp_all add: raw_toggle_missing orm_toggle_missing)
    then show ?thesis by (auto intro: exI [of _ None])
  next
    case (Some r)
    then have sel: "select_by_id (Fin q) d = Some r" by (simp add: select_by_id_def)
    from Some have m: "row_matches (Fin q) r" and mem: "r \<in> set (books d)"
      by (simp_all add: find_row_matches)
    show ?thesis
      using raw_toggle_found(1) [OF sel] orm_toggle_found(1) [OF sel] unique_row [OF dist mem m]
      by (auto intro: exI [of _ "Some (r\<lparr>status := toggled (status r)\<rparr>)"])
  qed
  have deleting: "raw_deleteBook (Fin q) d = orm_deleteBook (Fin q) d"
    by (simp add: raw_deleteBook_eq orm_deleteBook_eq)
  have rating: "(\<exists>ro. fst (raw_updateBookRating (Fin q) rt d) = Inr (map_option mapRowToBook ro)
             \<and> fst (orm_updateBookRating (Fin q) rt d) = Inr (map_option plain (map_option build ro)))
        \<and> snd (raw_updateBookRating (Fin q) rt d) = snd (orm_updateBookRating (Fin q) rt d)"
    if v: "validate_rating rt"
  proof (cases "find (row_matches (Fin q)) (books d)")
    case None
    then have "raw_updateBookRating (Fin q) rt d = (Inr None, d)"
      "orm_updateBookRating (Fin q) rt d = (Inr None, d)"
      by (simp_all add: raw_rating_missing orm_rating_missing)
    then show ?thesis by (auto intro: exI [of _ None])
  next
    case (Some r)
    then have sel: "select_by_id (Fin q) d = Some r" by (simp add: select_by_id_def)
    show ?thesis
      using raw_rating_found [OF sel, of rt] orm_rating_found [OF sel v]
      by (auto intro: exI [of _ "Some (r\<lparr>rating := rt\<rparr>)"])
  qed
  show ?thesis
    using listing creating toggling deleting rating by blast
qed

theorem layers_agree_witness:
  "trim ''Dune'' = ''Dune'' \<and> trim ''Herbert'' = ''Herbert''
   \<and> distinct (map id' (books shelf)) \<and> validate_rating (Fin 3)
   \<and> (\<exists>rs. fst (raw_getAllBooks shelf) = Inr (map mapRowToBook rs)
          \<and> fst (orm_getAllBooks shelf) = Inr (map plain (map build rs)))
   \<and> (\<exists>x. fst (raw_createBook ''Dune'' ''Herbert'' noon shelf) = Inr (mapRowToBook x)
         \<and> snd (raw_createBook ''Dune'' ''Herbert'' noon shelf)
             = shelf\<lparr>books := books shelf @ [x], sqlite_sequence := id' x\<rparr>
         \<and> createdAt x = CURRENT_TIMESTAMP noon
         \<and> fst (orm_createBook ''Dune'' ''Herbert'' noon shelf)
             = Inr (x\<lparr>createdAt := toISOString noon\<rparr>)
         \<and> snd (orm_createBook ''Dune'' ''Herbert'' noon shelf)
             = shelf\<lparr>books := books shelf @ [x\<lparr>createdAt := DATE_stringify noon\<rparr>],
                     sqlite_sequence := id' x\<rparr>)
   \<and> snd (raw_toggleBookStatus (Fin 1) shelf) = snd (orm_toggleBookStatus (Fin 1) shelf)
   \<and> raw_deleteBook (Fin 1) shelf = orm_deleteBook (Fin 1) shelf
   \<and> snd (raw_updateBookRating (Fin 1) (Fin 3) shelf)
       = snd (orm_updateBookRating (Fin 1) (Fin 3) shelf)
   \<and> fst (raw_toggleBookStatus (Fin 1) shelf) = Inr (Some (dune\<lparr>status := READ\<rparr>))
   \<and> fst (orm_toggleBookStatus (Fin 1) shelf)
       = Inr (Some (dune\<lparr>status := READ, createdAt := ''2024-01-01T12:00:00.000Z''\<rparr>))"
proof -
  have h: "trim ''Dune'' = ''Dune'' \<and> trim ''Herbert'' = ''Herbert''"
    "distinct (map id' (books shelf))" "validate_rating (Fin 3)"
    by (simp_all add: trim_samples shelf_distinct validate_rating_def)
  have s: "toggled (status dune) = READ" by (simp add: toggled_def dune_def)
  have p: "plain (build (dune\<lparr>status := READ\<rparr>))
             = dune\<lparr>status := READ, createdAt := ''2024-01-01T12:00:00.000Z''\<rparr>"
    by (simp add: plain_def build_def dune_def parse_samples noon_text)
  have e: "fst (raw_toggleBookStatus (Fin 1) shelf) = Inr (Some (dune\<lparr>status := READ\<rparr>))"
    "fst (orm_toggleBookStatus (Fin 1) shelf)
       = Inr (Some (dune\<lparr>status := READ, createdAt := ''2024-01-01T12:00:00.000Z''\<rparr>))"
    using raw_toggle_found(1) [OF shelf_select] orm_toggle_found(1) [OF shelf_select]
    by (simp_all add: s p mapRowToBook_row)
  note t = layers_agree [where d = shelf and t = "''Dune''" and a = "''Herbert''"
      and now = noon and q = 1 and rt = "Fin 3"]
  show ?thesis
    using h e t by simp
qed

text \<open>
  Where C1 fails as stated: an untrimmed title is stored as it is by the raw layer and
  trimmed by the ORM layer; a rating of 7 is written by the raw layer and refused by the
  ORM layer's validator; for the id \<open>Infinity\<close> the raw layer finds no row and the ORM
  layer's query fails; the same row is returned with two different \<open>createdAt\<close> strings;
  and the same insert at the same clock leaves two different texts in the column.
\<close>

theorem layers_differ:
  "snd (raw_createBook '' Dune'' ''Herbert'' noon empty_db)
     \<noteq> snd (orm_createBook '' Dune'' ''Herbert'' noon empty_db)
   \<and> fst (raw_updateBookRating (Fin 1) (Fin 7) shelf)
     \<noteq> fst (orm_updateBookRating (Fin 1) (Fin 7) shelf)
   \<and> raw_deleteBook PosInfinity shelf \<noteq> orm_deleteBook PosInfinity shelf
   \<and> raw_toggleBookStatus PosInfinity shelf \<noteq> orm_toggleBookStatus PosInfinity shelf
   \<and> raw_updateBookRating PosInfinity (Fin 3) shelf \<noteq> orm_updateBookRating PosInfinity (Fin 3) shelf
   \<and> fst (raw_getAllBooks \<lparr>books = [dune], sqlite_sequence = 1\<rparr>)
     \<noteq> fst (orm_getAllBooks \<lparr>books = [dune], sqlite_sequence = 1\<rparr>)
   \<and> snd (raw_createBook ''Dune'' ''Herbert'' noon empty_db)
     \<noteq> snd (orm_createBook ''Dune'' ''Herbert'' noon empty_db)
   \<and> snd (raw_createBook '' Dune'' ''Herbert'' noon empty_db)
     = \<lparr>books = [\<lparr>id' = 1, title = '' Dune'', author = ''Herbert'', status = UNREAD,
                  createdAt = ''2024-01-01 12:00:00'', rating = Fin 0\<rparr>],
        sqlite_sequence = 1\<rparr>
   \<and> snd (orm_createBook '' Dune'' ''Herbert'' noon empty_db)
     = \<lparr>books = [\<lparr>id' = 1, title = ''Dune'', author = ''Herbert'', status = UNREAD,
                  createdAt = ''2024-01-01 12:00:00.000 +00:00'', rating = Fin 0\<rparr>],
        sqlite_sequence = 1\<rparr>
   \<and> raw_updateBookRating (Fin 1) (Fin 7) shelf
     = (Inr (Some (dune\<lparr>rating := Fin 7\<rparr>)),
        \<lparr>books = [dune\<lparr>rating := Fin 7\<rparr>, emma], sqlite_sequence = 2\<rparr>)
   \<and> orm_updateBookRating (Fin 1) (Fin 7) shelf = (Inl SequelizeValidationError, shelf)
   \<and> raw_deleteBook PosInfinity shelf = (Inr False, shelf)
   \<and> orm_deleteBook PosInfinity shelf = (Inl SequelizeDatabaseError, shelf)
   \<and> raw_toggleBookStatus PosInfinity shelf = (Inr None, shelf)
   \<and> orm_toggleBookStatus PosInfinity shelf = (Inl SequelizeDatabaseError, shelf)
   \<and> raw_updateBookRating PosInfinity (Fin 3) shelf = (Inr None, shelf)
   \<and> orm_updateBookRating PosInfinity (Fin 3) shelf = (Inl SequelizeDatabaseError, shelf)
   \<and> fst (raw_getAllBooks \<lparr>books = [dune], sqlite_sequence = 1\<rparr>)
     = Inr [\<lparr>id' = 1, title = ''Dune'', author = ''Herbert'', status = UNREAD,
             createdAt = ''2024-01-01 12:00:00'', rating = Fin 0\<rparr>]
   \<and> fst (orm_getAllBooks \<lparr>books = [dune], sqlite_sequence = 1\<rparr>)
     = Inr [\<lparr>id' = 1, title = ''Dune'', author = ''Herbert'', status = UNREAD,
             createdAt = ''2024-01-01T12:00:00.000Z'', rating = Fin 0\<rparr>]
   \<and> snd (raw_createBook ''Dune'' ''Herbert'' noon empty_db)
     = \<lparr>books = [\<lparr>id' = 1, title = ''Dune'', author = ''Herbert'', status = UNREAD,
                  createdAt = ''2024-01-01 12:00:00'', rating = Fin 0\<rparr>],
        sqlite_sequence = 1\<rparr>
   \<and> snd (orm_createBook ''Dune'' ''Herbert'' noon empty_db)
     = \<lparr>books = [\<lparr>id' = 1, title = ''Dune'', author = ''Herbert'', status = UNREAD,
                  createdAt = ''2024-01-01 12:00:00.000 +00:00'', rating = Fin 0\<rparr>],
        sqlite_sequence = 1\<rparr>"
proof -
  have c: "snd (raw_createBook '' Dune'' ''Herbert'' noon empty_db)
     = \<lparr>books = [\<lparr>id' = 1, title = '' Dune'', author = ''Herbert'', status = UNREAD,
                  createdAt = ''2024-01-01 12:00:00'', rating = Fin 0\<rparr>],
        sqlite_sequence = 1\<rparr>"
    "snd (orm_createBook '' Dune'' ''Herbert'' noon empty_db)
     = \<lparr>books = [\<lparr>id' = 1, title = ''Dune'', author = ''Herbert'', status = UNREAD,
                  createdAt = ''2024-01-01 12:00:00.000 +00:00'', rating = Fin 0\<rparr>],
        sqlite_sequence = 1\<rparr>"
    "snd (raw_createBook ''Dune'' ''Herbert'' noon empty_db)
     = \<lparr>books = [\<lparr>id' = 1, title = ''Dune'', author = ''Herbert'', status = UNREAD,
                  createdAt = ''2024-01-01 12:00:00'', rating = Fin 0\<rparr>],
        sqlite_sequence = 1\<rparr>"
    "snd (orm_createBook ''Dune'' ''Herbert'' noon empty_db)
     = \<lparr>books = [\<lparr>id' = 1, title = ''Dune'', author = ''Herbert'', status = UNREAD,
                  createdAt = ''2024-01-01 12:00:00.000 +00:00'', rating = Fin 0\<rparr>],
        sqlite_sequence = 1\<rparr>"
    by (simp_all add: raw_createBook_eq orm_createBook_eq inserted_def empty_db_next noon_text
        trim_samples) (simp_all add: empty_db_def)
  have m: "row_matches (Fin 1) (dune\<lparr>rating := Fin 7\<rparr>)"
    by (simp add: row_matches_def dune_def)
  have r: "raw_updateBookRating (Fin 1) (Fin 7) shelf
     = (Inr (Some (dune\<lparr>rating := Fin 7\<rparr>)),
        \<lparr>books = [dune\<lparr>rating := Fin 7\<rparr>, emma], sqlite_sequence = 2\<rparr>)"
    using m
    by (simp add: raw_updateBookRating_def select_by_id_def shelf_def shelf_matches
        mapRowToBook_row)
  have v: "orm_updateBookRating (Fin 1) (Fin 7) shelf = (Inl SequelizeValidationError, shelf)"
    by (simp add: orm_updateBookRating_def findByPk_def update_rating_def validate_rating_def
        shelf_def shelf_matches)
  have n: "\<not> row_matches PosInfinity dune" "\<not> row_matches PosInfinity emma"
    by (simp_all add: row_matches_def)
  have i: "raw_deleteBook PosInfinity shelf = (Inr False, shelf)"
    "raw_toggleBookStatus PosInfinity shelf = (Inr None, shelf)"
    "raw_updateBookRating PosInfinity (Fin 3) shelf = (Inr None, shelf)"
    by (simp_all add: raw_deleteBook_def raw_toggleBookStatus_def raw_updateBookRating_def
        shelf_def n)
  have j: "orm_deleteBook PosInfinity shelf = (Inl SequelizeDatabaseError, shelf)"
    "orm_toggleBookStatus PosInfinity shelf = (Inl SequelizeDatabaseError, shelf)"
    "orm_updateBookRating PosInfinity (Fin 3) shelf = (Inl SequelizeDatabaseError, shelf)"
    by (simp_all add: orm_deleteBook_def orm_toggleBookStatus_def orm_updateBookRating_def
        findByPk_def)
  have l: "fst (raw_getAllBooks \<lparr>books = [dune], sqlite_sequence = 1\<rparr>)
     = Inr [\<lparr>id' = 1, title = ''Dune'', author = ''Herbert'', status = UNREAD,
             createdAt = ''2024-01-01 12:00:00'', rating = Fin 0\<rparr>]"
    "fst (orm_getAllBooks \<lparr>books = [dune], sqlite_sequence = 1\<rparr>)
     = Inr [\<lparr>id' = 1, title = ''Dune'', author = ''Herbert'', status = UNREAD,
             createdAt = ''2024-01-01T12:00:00.000Z'', rating = Fin 0\<rparr>]"
    by (simp_all add: raw_getAllBooks_def orm_getAllBooks_def findAll_createdAt_desc_def
        order_by_createdAt_desc_def mapRowToBook_row served_samples)
      (simp_all add: dune_def)
  show ?thesis
    unfolding c r v i j l by simp
qed

section \<open>Creating through the API\<close>

text \<open>
  C2 at the input where the handler departs from it: a title of three spaces is not
  falsy, so the handler goes on, trims it to the empty string and has the store insert a
  book with an empty title, answering 201, with either layer; the empty string itself
  it answers with 400.
\<close>

theorem blank_title_is_stored:
  "\<not> falsy (Some ''   '') \<and> trim ''   '' = ''''
   \<and> post_api_books raw_store (Some ''   '') (Some ''Herbert'') noon empty_db
       = (\<lparr>statusCode = 201,
           body = BookJson \<lparr>id' = 1, title = '''', author = ''Herbert'', status = UNREAD,
                             createdAt = ''2024-01-01 12:00:00'', rating = Fin 0\<rparr>\<rparr>,
          \<lparr>books = [\<lparr>id' = 1, title = '''', author = ''Herbert'', status = UNREAD,
                      createdAt = ''2024-01-01 12:00:00'', rating = Fin 0\<rparr>],
            sqlite_sequence = 1\<rparr>)
   \<and> post_api_books orm_store (Some ''   '') (Some ''Herbert'') noon empty_db
       = (\<lparr>statusCode = 201,
           body = BookJson \<lparr>id' = 1, title = '''', author = ''Herbert'', status = UNREAD,
                             createdAt = ''2024-01-01T12:00:00.000Z'', rating = Fin 0\<rparr>\<rparr>,
          \<lparr>books = [\<lparr>id' = 1, title = '''', author = ''Herbert'', status = UNREAD,
                      createdAt = ''2024-01-01 12:00:00.000 +00:00'', rating = Fin 0\<rparr>],
            sqlite_sequence = 1\<rparr>)
   \<and> post_api_books raw_store (Some '''') (Some ''Herbert'') noon empty_db
       = (\<lparr>statusCode = 400, body = Message ''Title and author are required''\<rparr>, empty_db)"
  by (simp add: post_api_books_def falsy_def String_of_def store_fields raw_createBook_eq
      orm_createBook_eq inserted_def empty_db_next noon_text trim_samples)
    (simp add: empty_db_def)

section \<open>Ids and ratings that are not numbers\<close>

text \<open>
  C3, as the code has it. An id segment that \<open>Number\<close> turns into \<open>NaN\<close> gets 400 from the
  toggle, rating and delete handlers, whatever the store, and the database stays as it
  is; a rating that \<open>Number\<close> turns into \<open>NaN\<close>, or into a number below 1 or above 5, gets
  400 from the rating handler in the same way.
\<close>

theorem not_a_number_rejected:
  "(isNaN (Number (JString seg)) \<longrightarrow>
       patch_api_books_id_toggle S seg d
         = (\<lparr>statusCode = 400, body = Message ''Invalid book id''\<rparr>, d)
     \<and> delete_api_books_id S seg d
         = (\<lparr>statusCode = 400, body = Message ''Invalid book id''\<rparr>, d)
     \<and> patch_api_books_id_rating S seg rv d
         = (\<lparr>statusCode = 400, body = Message ''Invalid id or rating''\<rparr>, d))
   \<and> (isNaN (Number rv) \<or> js_lt (Number rv) (Num (Fin 1)) \<or> js_gt (Number rv) (Num (Fin 5)) \<longrightarrow>
         statusCode (fst (patch_api_books_id_rating S seg rv d)) = 400
       \<and> snd (patch_api_books_id_rating S seg rv d) = d
       \<and> patch_api_books_id_rating S seg rv d = patch_api_books_id_rating S' seg rv d)"
proof (intro conjI impI)
  assume "isNaN (Number (JString seg))"
  then have n: "Number (JString seg) = NaN" by (simp add: isNaN_def)
  show "patch_api_books_id_toggle S seg d
         = (\<lparr>statusCode = 400, body = Message ''Invalid book id''\<rparr>, d)"
    by (simp add: patch_api_books_id_toggle_def n del: Number.simps)
  show "delete_api_books_id S seg d
         = (\<lparr>statusCode = 400, body = Message ''Invalid book id''\<rparr>, d)"
    by (simp add: delete_api_books_id_def n del: Number.simps)
  show "patch_api_books_id_rating S seg rv d
         = (\<lparr>statusCode = 400, body = Message ''Invalid id or rating''\<rparr>, d)"
    by (simp add: patch_api_books_id_rating_def n isNaN_def Let_def del: Number.simps)
next
  assume a: "isNaN (Number rv) \<or> js_lt (Number rv) (Num (Fin 1)) \<or> js_gt (Number rv) (Num (Fin 5))"
  then show "statusCode (fst (patch_api_books_id_rating S seg rv d)) = 400"
    by (auto simp: patch_api_books_id_rating_def Let_def simp del: Number.simps)
  from a show "snd (patch_api_books_id_rating S seg rv d) = d"
    by (auto simp: patch_api_books_id_rating_def Let_def simp del: Number.simps)
  from a show "patch_api_books_id_rating S seg rv d = patch_api_books_id_rating S' seg rv d"
    by (auto simp: patch_api_books_id_rating_def Let_def simp del: Number.simps)
qed

theorem not_a_number_rejected_witness:
  "isNaN (Number (JString ''abc''))
   \<and> patch_api_books_id_toggle raw_store ''abc'' shelf
       = (\<lparr>statusCode = 400, body = Message ''Invalid book id''\<rparr>, shelf)
   \<and> delete_api_books_id orm_store ''abc'' shelf
       = (\<lparr>statusCode = 400, body = Message ''Invalid book id''\<rparr>, shelf)
   \<and> js_gt (Number (JNumber (Num (Fin 7)))) (Num (Fin 5))
   \<and> statusCode (fst (patch_api_books_id_rating raw_store ''1'' (JNumber (Num (Fin 7))) shelf)) = 400
   \<and> snd (patch_api_books_id_rating raw_store ''1'' (JNumber (Num (Fin 7))) shelf) = shelf"
proof -
  have a: "isNaN (Number (JString ''abc''))"
    by (simp add: isNaN_def number_samples)
  have b: "js_gt (Number (JNumber (Num (Fin 7)))) (Num (Fin 5))"
    by (simp add: js_gt_def)
  show ?thesis
    using a b
      not_a_number_rejected [of "''abc''" raw_store shelf JUndefined raw_store]
      not_a_number_rejected [of "''abc''" orm_store shelf JUndefined orm_store]
      not_a_number_rejected [of "''1''" raw_store shelf "JNumber (Num (Fin 7))" raw_store]
    by simp
qed

text \<open>
  Where C3 fails as stated: the segment \<open>1.5\<close> is a number, not an integer, and the toggle
  and delete handlers pass it to the store and answer 404; the rating \<open>2.5\<close> is written
  to the row.
\<close>

theorem fraction_reaches_store:
  "Number (JString ''1.5'') = Num (Fin (3/2))
   \<and> patch_api_books_id_toggle raw_store ''1.5'' shelf
       = (\<lparr>statusCode = 404, body = Message ''Book not found''\<rparr>, shelf)
   \<and> delete_api_books_id raw_store ''1.5'' shelf
       = (\<lparr>statusCode = 404, body = Message ''Book not found''\<rparr>, shelf)
   \<and> patch_api_books_id_rating raw_store ''1'' (JNumber (Num (Fin (5/2)))) shelf
       = (\<lparr>statusCode = 200, body = BookJson (mapRowToBook (dune\<lparr>rating := Fin (5/2)\<rparr>))\<rparr>,
          \<lparr>books = [dune\<lparr>rating := Fin (5/2)\<rparr>, emma], sqlite_sequence = 2\<rparr>)"
proof -
  have t: "raw_toggleBookStatus (Fin (3/2)) shelf = (Inr None, shelf)"
    by (simp add: raw_toggleBookStatus_def shelf_def shelf_matches)
  have dl: "raw_deleteBook (Fin (3/2)) shelf = (Inr False, shelf)"
    by (simp add: raw_deleteBook_def shelf_def shelf_matches)
  have "row_matches (Fin 1) (dune\<lparr>rating := Fin (5/2)\<rparr>)"
    by (simp add: row_matches_def dune_def)
  then have u: "raw_updateBookRating (Fin 1) (Fin (5/2)) shelf
            = (Inr (Some (mapRowToBook (dune\<lparr>rating := Fin (5/2)\<rparr>))),
               \<lparr>books = [dune\<lparr>rating := Fin (5/2)\<rparr>, emma], sqlite_sequence = 2\<rparr>)"
    by (simp add: raw_updateBookRating_def select_by_id_def shelf_def shelf_matches)
  show ?thesis
    by (simp add: patch_api_books_id_toggle_def delete_api_books_id_def
        patch_api_books_id_rating_def number_samples store_fields t dl u isNaN_def js_gt_def
        Let_def)
qed

section \<open>Rating\<close>

text \<open>
  C4. In both layers, for a row found under the id and an integer \<open>n\<close> from 1 to 5,
  \<open>updateBookRating\<close> returns the book with rating \<open>n\<close>, and the list read next holds
  that book and gives rating \<open>n\<close> for every entry with the id. A rating that converts
  to a number below 1 or above 5 gets 400 from the handler, whatever the store, and the
  database stays as it is.
\<close>

theorem rating_update_in_range:
  "((S = raw_store \<or> S = orm_store) \<and> select_by_id i d = Some r \<and> 1 \<le> n \<and> n \<le> 5 \<longrightarrow>
      (\<exists>b bs. fst (updateBookRating S i (Fin (of_int n)) d) = Inr (Some b)
             \<and> rating b = Fin (of_int n) \<and> id' b = id' r
             \<and> fst (getAllBooks S (snd (updateBookRating S i (Fin (of_int n)) d))) = Inr bs
             \<and> b \<in> set bs
             \<and> (\<forall>x \<in> set bs. id' x = id' r \<longrightarrow> rating x = Fin (of_int n))))
   \<and> (js_lt (Number rv) (Num (Fin 1)) \<or> js_gt (Number rv) (Num (Fin 5)) \<longrightarrow>
        statusCode (fst (patch_api_books_id_rating T seg rv e)) = 400
      \<and> snd (patch_api_books_id_rating T seg rv e) = e
      \<and> patch_api_books_id_rating T seg rv e = patch_api_books_id_rating T' seg rv e)"
proof (intro conjI impI)
  assume a: "(S = raw_store \<or> S = orm_store) \<and> select_by_id i d = Some r \<and> 1 \<le> n \<and> n \<le> 5"
  then have sel: "select_by_id i d = Some r" and v: "validate_rating (Fin (of_int n))"
    by (simp_all add: validate_rating_int)
  let ?rt = "Fin (of_int n)"
  let ?rows = "map (\<lambda>x. if row_matches i x then x\<lparr>rating := ?rt\<rparr> else x) (books d)"
  from a have "S = raw_store \<or> S = orm_store" by simp
  then show "\<exists>b bs. fst (updateBookRating S i ?rt d) = Inr (Some b)
             \<and> rating b = ?rt \<and> id' b = id' r
             \<and> fst (getAllBooks S (snd (updateBookRating S i ?rt d))) = Inr bs
             \<and> b \<in> set bs
             \<and> (\<forall>x \<in> set bs. id' x = id' r \<longrightarrow> rating x = ?rt)"
  proof
    assume S: "S = raw_store"
    have res: "raw_updateBookRating i ?rt d
                 = (Inr (Some (mapRowToBook (r\<lparr>rating := ?rt\<rparr>))), d\<lparr>books := ?rows\<rparr>)"
      by (rule raw_rating_found [OF sel])
    have lst: "fst (raw_getAllBooks (d\<lparr>books := ?rows\<rparr>))
                 = Inr (map mapRowToBook (order_by_createdAt_desc ?rows))"
      by (simp add: raw_getAllBooks_def)
    note l = listed_rated [OF sel, of mapRowToBook ?rt, OF rendered_fields(1) rendered_fields(3)]
    have f1: "rating (mapRowToBook (r\<lparr>rating := ?rt\<rparr>)) = ?rt"
      and f2: "id' (mapRowToBook (r\<lparr>rating := ?rt\<rparr>)) = id' r"
      by (simp_all add: rendered_fields)
    show ?thesis
      unfolding S store_fields res fst_conv snd_conv lst
      using f1 f2 l by blast
  next
    assume S: "S = orm_store"
    have res: "orm_updateBookRating i ?rt d
                 = (Inr (Some (plain (build (r\<lparr>rating := ?rt\<rparr>)))), d\<lparr>books := ?rows\<rparr>)"
      by (rule orm_rating_found [OF sel v])
    have lst: "fst (orm_getAllBooks (d\<lparr>books := ?rows\<rparr>))
                 = Inr (map (\<lambda>r. plain (build r)) (order_by_createdAt_desc ?rows))"
      by (simp add: orm_getAllBooks_eq)
    note l = listed_rated [OF sel, of "\<lambda>r. plain (build r)" ?rt, OF served_fields(1) served_fields(3)]
    have f1: "rating (plain (build (r\<lparr>rating := ?rt\<rparr>))) = ?rt"
      and f2: "id' (plain (build (r\<lparr>rating := ?rt\<rparr>))) = id' r"
      by (simp_all add: served_fields)
    show ?thesis
      unfolding S store_fields res fst_conv snd_conv lst
      using f1 f2 l by blast
  qed
next
  assume "js_lt (Number rv) (Num (Fin 1)) \<or> js_gt (Number rv) (Num (Fin 5))"
  then show "statusCode (fst (patch_api_books_id_rating T seg rv e)) = 400"
    by (rule rating_out_of_range_400)
next
  assume "js_lt (Number rv) (Num (Fin 1)) \<or> js_gt (Number rv) (Num (Fin 5))"
  then show "snd (patch_api_books_id_rating T seg rv e) = e"
    by (rule rating_out_of_range_400)
next
  assume "js_lt (Number rv) (Num (Fin 1)) \<or> js_gt (Number rv) (Num (Fin 5))"
  then show "patch_api_books_id_rating T seg rv e = patch_api_books_id_rating T' seg rv e"
    by (rule rating_out_of_range_400)
qed

theorem rating_update_in_range_witness:
  "((raw_store = raw_store \<or> raw_store = orm_store) \<and> select_by_id (Fin (of_int 1)) shelf = Some dune
      \<and> (1::int) \<le> 3 \<and> (3::int) \<le> 5)
   \<and> ((orm_store = raw_store \<or> orm_store = orm_store) \<and> select_by_id (Fin (of_int 1)) shelf = Some dune
      \<and> (1::int) \<le> 3 \<and> (3::int) \<le> 5)
   \<and> (js_lt (Number (JNumber (Num (Fin 7)))) (Num (Fin 1))
       \<or> js_gt (Number (JNumber (Num (Fin 7)))) (Num (Fin 5)))
   \<and> (\<exists>b. fst (updateBookRating raw_store (Fin (of_int 1)) (Fin (of_int 3)) shelf) = Inr (Some b)
          \<and> rating b = Fin (of_int 3) \<and> id' b = id' dune)
   \<and> (\<exists>b. fst (updateBookRating orm_store (Fin (of_int 1)) (Fin (of_int 3)) shelf) = Inr (Some b)
          \<and> rating b = Fin (of_int 3) \<and> id' b = id' dune)
   \<and> statusCode (fst (patch_api_books_id_rating raw_store ''1'' (JNumber (Num (Fin 7))) shelf)) = 400
   \<and> snd (patch_api_books_id_rating raw_store ''1'' (JNumber (Num (Fin 7))) shelf) = shelf
   \<and> patch_api_books_id_rating raw_store ''1'' (JNumber (Num (Fin 7))) shelf
       = patch_api_books_id_rating orm_store ''1'' (JNumber (Num (Fin 7))) shelf"
proof -
  have sel: "select_by_id (Fin (of_int 1)) shelf = Some dune"
    using shelf_select by simp
  have a1: "(raw_store = raw_store \<or> raw_store = orm_store) \<and> select_by_id (Fin (of_int 1)) shelf = Some dune
      \<and> (1::int) \<le> 3 \<and> (3::int) \<le> 5"
    using sel by simp
  have a2: "(orm_store = raw_store \<or> orm_store = orm_store) \<and> select_by_id (Fin (of_int 1)) shelf = Some dune
      \<and> (1::int) \<le> 3 \<and> (3::int) \<le> 5"
    using sel by simp
  have c: "js_lt (Number (JNumber (Num (Fin 7)))) (Num (Fin 1))
       \<or> js_gt (Number (JNumber (Num (Fin 7)))) (Num (Fin 5))"
    by (simp add: js_gt_def)
  note t1 = rating_update_in_range [of raw_store "Fin (of_int 1)" shelf dune 3
      "JNumber (Num (Fin 7))" raw_store "''1''" shelf orm_store]
  note t2 = rating_update_in_range [of orm_store "Fin (of_int 1)" shelf dune 3
      "JNumber (Num (Fin 7))" raw_store "''1''" shelf orm_store]
  from t1 a1 have b1: "\<exists>b. fst (updateBookRating raw_store (Fin (of_int 1)) (Fin (of_int 3)) shelf) = Inr (Some b)
          \<and> rating b = Fin (of_int 3) \<and> id' b = id' dune"
    by blast
  from t2 a2 have b2: "\<exists>b. fst (updateBookRating orm_store (Fin (of_int 1)) (Fin (of_int 3)) shelf) = Inr (Some b)
          \<and> rating b = Fin (of_int 3) \<and> id' b = id' dune"
    by blast
  from t1 c have d: "statusCode (fst (patch_api_books_id_rating raw_store ''1'' (JNumber (Num (Fin 7))) shelf)) = 400"
    "snd (patch_api_books_id_rating raw_store ''1'' (JNumber (Num (Fin 7))) shelf) = shelf"
    "patch_api_books_id_rating raw_store ''1'' (JNumber (Num (Fin 7))) shelf
       = patch_api_books_id_rating orm_store ''1'' (JNumber (Num (Fin 7))) shelf"
    by blast+
  show ?thesis
    by (intro conjI a1 [THEN conjunct1] a1 [THEN conjunct2, THEN conjunct1] c b1 b2 d) simp_all
qed

section \<open>Creating\<close>

text \<open>
  C5. In both layers and from every table, \<open>createBook\<close> returns a book, and the list
  read next is the list read before with that one book added; the book is \<open>UNREAD\<close>, has
  rating 0, and its id is above the counter and is the id of no row and no listed book
  from before. Title and author may be any strings, so also those of the claim.
\<close>

theorem create_then_list:
  assumes "S = raw_store \<or> S = orm_store"
  shows "\<exists>b bs bs'.
           fst (createBook S t a now d) = Inr b
         \<and> fst (getAllBooks S d) = Inr bs
         \<and> fst (getAllBooks S (snd (createBook S t a now d))) = Inr bs'
         \<and> mset bs' = mset bs + {#b#}
         \<and> status b = UNREAD \<and> rating b = Fin 0
         \<and> id' b \<notin> id' ` set bs
         \<and> id' b \<notin> id' ` set (books d)
         \<and> sqlite_sequence d < id' b"
  using assms
proof
  assume S: "S = raw_store"
  let ?r = "inserted t a (CURRENT_TIMESTAMP now) d"
  have "id' ?r \<notin> id' ` set (map mapRowToBook (order_by_createdAt_desc (books d)))"
    using fresh_id_not_listed [of d]
    by (simp add: rendered_fields inserted_fields order_by_set image_image)
  then show ?thesis
    using fresh_id_not_listed [of d] next_rowid_above_sequence [of d]
    by (simp add: S store_fields raw_createBook_eq raw_getAllBooks_def order_by_mset
        rendered_fields inserted_fields mapRowToBook_row)
next
  assume S: "S = orm_store"
  let ?b = "inserted (trim t) (trim a) (toISOString now) d"
  have "id' ?b \<notin> id' ` set (map (\<lambda>r. plain (build r)) (order_by_createdAt_desc (books d)))"
    using fresh_id_not_listed [of d]
    by (simp add: served_fields inserted_fields order_by_set image_image)
  then show ?thesis
    using fresh_id_not_listed [of d] next_rowid_above_sequence [of d]
    by (simp add: S store_fields orm_createBook_eq orm_getAllBooks_eq order_by_mset
        served_inserted inserted_fields)
qed

theorem create_then_list_witness:
  "(raw_store = raw_store \<or> raw_store = orm_store)
   \<and> (orm_store = raw_store \<or> orm_store = orm_store)
   \<and> fst (createBook raw_store ''Ubik'' ''Dick'' noon shelf)
       = Inr \<lparr>id' = 3, title = ''Ubik'', author = ''Dick'', status = UNREAD,
              createdAt = ''2024-01-01 12:00:00'', rating = Fin 0\<rparr>
   \<and> fst (createBook orm_store ''Ubik'' ''Dick'' noon shelf)
       = Inr \<lparr>id' = 3, title = ''Ubik'', author = ''Dick'', status = UNREAD,
              createdAt = ''2024-01-01T12:00:00.000Z'', rating = Fin 0\<rparr>
   \<and> (\<exists>b bs bs'.
           fst (createBook raw_store ''Ubik'' ''Dick'' noon shelf) = Inr b
         \<and> fst (getAllBooks raw_store shelf) = Inr bs
         \<and> fst (getAllBooks raw_store (snd (createBook raw_store ''Ubik'' ''Dick'' noon shelf))) = Inr bs'
         \<and> mset bs' = mset bs + {#b#}
         \<and> status b = UNREAD \<and> rating b = Fin 0
         \<and> id' b \<notin> id' ` set bs
         \<and> id' b \<notin> id' ` set (books shelf)
         \<and> sqlite_sequence shelf < id' b)
   \<and> (\<exists>b bs bs'.
           fst (createBook orm_store ''Ubik'' ''Dick'' noon shelf) = Inr b
         \<and> fst (getAllBooks orm_store shelf) = Inr bs
         \<and> fst (getAllBooks orm_store (snd (createBook orm_store ''Ubik'' ''Dick'' noon shelf))) = Inr bs'
         \<and> mset bs' = mset bs + {#b#}
         \<and> status b = UNREAD \<and> rating b = Fin 0
         \<and> id' b \<notin> id' ` set bs
         \<and> id' b \<notin> id' ` set (books shelf)
         \<and> sqlite_sequence shelf < id' b)"
proof -
  have h1: "raw_store = raw_store \<or> raw_store = orm_store" by simp
  have h2: "orm_store = raw_store \<or> orm_store = orm_store" by simp
  have t: "trim ''Ubik'' = ''Ubik''" "trim ''Dick'' = ''Dick''"
    by (simp_all add: trim_def is_ws_def)
  have e1: "fst (createBook raw_store ''Ubik'' ''Dick'' noon shelf)
       = Inr \<lparr>id' = 3, title = ''Ubik'', author = ''Dick'', status = UNREAD,
              createdAt = ''2024-01-01 12:00:00'', rating = Fin 0\<rparr>"
    by (simp add: store_fields raw_createBook_eq inserted_def shelf_next noon_text)
  have e2: "fst (createBook orm_store ''Ubik'' ''Dick'' noon shelf)
       = Inr \<lparr>id' = 3, title = ''Ubik'', author = ''Dick'', status = UNREAD,
              createdAt = ''2024-01-01T12:00:00.000Z'', rating = Fin 0\<rparr>"
    by (simp add: store_fields orm_createBook_eq inserted_def shelf_next t noon_text)
  show ?thesis
    by (intro conjI h1 h2 e1 e2 create_then_list [OF h1] create_then_list [OF h2])
qed

section \<open>Toggling\<close>

text \<open>
  C6. In both layers, for a row found under the id, toggling returns the book with the
  other status, toggling again returns it with the status it had, and the row found
  under the id is then the row it was; the flip of the two-valued status is its own
  inverse and never leaves the status as it is.
\<close>

theorem toggle_twice:
  assumes "S = raw_store \<or> S = orm_store" and "select_by_id i d = Some r"
  shows "\<exists>b1 b2.
           fst (toggleBookStatus S i d) = Inr (Some b1)
         \<and> status b1 = toggled (status r)
         \<and> fst (toggleBookStatus S i (snd (toggleBookStatus S i d))) = Inr (Some b2)
         \<and> status b2 = status r
         \<and> select_by_id i (snd (toggleBookStatus S i (snd (toggleBookStatus S i d)))) = Some r
         \<and> toggled (toggled s) = s \<and> toggled s \<noteq> s"
  using assms(1)
proof
  assume S: "S = raw_store"
  let ?r1 = "r\<lparr>status := toggled (status r)\<rparr>"
  let ?d1 = "snd (raw_toggleBookStatus i d)"
  have one: "fst (raw_toggleBookStatus i d) = Inr (Some (mapRowToBook ?r1))"
    and sel: "select_by_id i ?d1 = Some ?r1"
    using raw_toggle_found [OF assms(2)] by simp_all
  have two: "fst (raw_toggleBookStatus i ?d1) = Inr (Some (mapRowToBook (?r1\<lparr>status := toggled (status ?r1)\<rparr>)))"
    and sel2: "select_by_id i (snd (raw_toggleBookStatus i ?d1)) = Some (?r1\<lparr>status := toggled (status ?r1)\<rparr>)"
    using raw_toggle_found [OF sel] by simp_all
  show ?thesis
    using one two sel2
    by (simp add: S store_fields rendered_fields toggled_involution)
next
  assume S: "S = orm_store"
  let ?r1 = "r\<lparr>status := toggled (status r)\<rparr>"
  let ?d1 = "snd (orm_toggleBookStatus i d)"
  have one: "fst (orm_toggleBookStatus i d) = Inr (Some (plain (build ?r1)))"
    and sel: "select_by_id i ?d1 = Some ?r1"
    using orm_toggle_found [OF assms(2)] by simp_all
  have two: "fst (orm_toggleBookStatus i ?d1) = Inr (Some (plain (build (?r1\<lparr>status := toggled (status ?r1)\<rparr>))))"
    and sel2: "select_by_id i (snd (orm_toggleBookStatus i ?d1)) = Some (?r1\<lparr>status := toggled (status ?r1)\<rparr>)"
    using orm_toggle_found [OF sel] by simp_all
  show ?thesis
    using one two sel2
    by (simp add: S store_fields served_fields toggled_involution)
qed

theorem toggle_twice_witness:
  "(raw_store = raw_store \<or> raw_store = orm_store)
   \<and> (orm_store = raw_store \<or> orm_store = orm_store)
   \<and> select_by_id (Fin 1) shelf = Some dune
   \<and> status dune = UNREAD \<and> toggled UNREAD = READ \<and> toggled READ = UNREAD
   \<and> (\<exists>b1 b2.
           fst (toggleBookStatus raw_store (Fin 1) shelf) = Inr (Some b1)
         \<and> status b1 = toggled (status dune)
         \<and> fst (toggleBookStatus raw_store (Fin 1) (snd (toggleBookStatus raw_store (Fin 1) shelf)))
             = Inr (Some b2)
         \<and> status b2 = status dune
         \<and> select_by_id (Fin 1)
             (snd (toggleBookStatus raw_store (Fin 1) (snd (toggleBookStatus raw_store (Fin 1) shelf))))
             = Some dune
         \<and> toggled (toggled READ) = READ \<and> toggled READ \<noteq> READ)
   \<and> (\<exists>b1 b2.
           fst (toggleBookStatus orm_store (Fin 1) shelf) = Inr (Some b1)
         \<and> status b1 = toggled (status dune)
         \<and> fst (toggleBookStatus orm_store (Fin 1) (snd (toggleBookStatus orm_store (Fin 1) shelf)))
             = Inr (Some b2)
         \<and> status b2 = status dune
         \<and> select_by_id (Fin 1)
             (snd (toggleBookStatus orm_store (Fin 1) (snd (toggleBookStatus orm_store (Fin 1) shelf))))
             = Some dune
         \<and> toggled (toggled READ) = READ \<and> toggled READ \<noteq> READ)"
proof -
  have h1: "raw_store = raw_store \<or> raw_store = orm_store" by simp
  have h2: "orm_store = raw_store \<or> orm_store = orm_store" by simp
  have s: "status dune = UNREAD" "toggled UNREAD = READ" "toggled READ = UNREAD"
    by (simp_all add: dune_def toggled_def)
  show ?thesis
    by (intro conjI h1 h2 s shelf_select toggle_twice [OF h1 shelf_select]
        toggle_twice [OF h2 shelf_select])
qed

section \<open>Deleting\<close>

text \<open>
  C7. \<open>deleteBook\<close> returns \<open>true\<close> exactly when the table holds a row with the id, and
  leaves the table without any such row and otherwise as it was; deleting the same id
  again returns \<open>false\<close>, raises nothing and leaves the table as the first delete left it.
  This holds of the raw layer, which the claim is drawn from, for every number, and of
  the ORM layer for every finite number, so for every id a row can have; for \<open>Infinity\<close>
  and \<open>-Infinity\<close> the ORM layer's query fails before anything is deleted.
\<close>

theorem deleteBook_twice:
  "fst (raw_deleteBook i d) = Inr (list_ex (row_matches i) (books d))
   \<and> snd (raw_deleteBook i d) = d\<lparr>books := filter (\<lambda>r. \<not> row_matches i r) (books d)\<rparr>
   \<and> raw_deleteBook i (snd (raw_deleteBook i d)) = (Inr False, snd (raw_deleteBook i d))
   \<and> fst (orm_deleteBook (Fin q) d) = Inr (list_ex (row_matches (Fin q)) (books d))
   \<and> snd (orm_deleteBook (Fin q) d)
       = d\<lparr>books := filter (\<lambda>r. \<not> row_matches (Fin q) r) (books d)\<rparr>
   \<and> orm_deleteBook (Fin q) (snd (orm_deleteBook (Fin q) d))
       = (Inr False, snd (orm_deleteBook (Fin q) d))"
proof -
  have gone: "list_ex (row_matches j) (filter (\<lambda>r. \<not> row_matches j r) rs) = False" for j rs
    by (simp add: list_ex_find deleted_is_gone)
  have raw2: "raw_deleteBook i (snd (raw_deleteBook i d)) = (Inr False, snd (raw_deleteBook i d))"
    by (simp add: raw_deleteBook_eq gone)
  have orm2: "orm_deleteBook (Fin q) (snd (orm_deleteBook (Fin q) d))
       = (Inr False, snd (orm_deleteBook (Fin q) d))"
    by (simp add: orm_deleteBook_eq gone)
  show ?thesis
    using raw2 orm2 by (simp add: raw_deleteBook_eq orm_deleteBook_eq)
qed

theorem deleteBook_twice_witness:
  "raw_deleteBook (Fin 1) shelf = (Inr True, \<lparr>books = [emma], sqlite_sequence = 2\<rparr>)
   \<and> orm_deleteBook (Fin 1) shelf = (Inr True, \<lparr>books = [emma], sqlite_sequence = 2\<rparr>)
   \<and> raw_deleteBook (Fin 1) \<lparr>books = [emma], sqlite_sequence = 2\<rparr>
       = (Inr False, \<lparr>books = [emma], sqlite_sequence = 2\<rparr>)
   \<and> orm_deleteBook (Fin 1) \<lparr>books = [emma], sqlite_sequence = 2\<rparr>
       = (Inr False, \<lparr>books = [emma], sqlite_sequence = 2\<rparr>)"
proof -
  have m: "row_matches (Fin 1) dune" "\<not> row_matches (Fin 1) emma"
    by (simp_all add: row_matches_def dune_def emma_def)
  note t = deleteBook_twice [where i = "Fin 1" and d = shelf and q = 1]
  have "snd (raw_deleteBook (Fin 1) shelf) = \<lparr>books = [emma], sqlite_sequence = 2\<rparr>"
       "snd (orm_deleteBook (Fin 1) shelf) = \<lparr>books = [emma], sqlite_sequence = 2\<rparr>"
    using t m by (simp_all add: shelf_def)
  then show ?thesis
    using t m
    by (simp add: shelf_def prod_eq_iff)
qed

section \<open>Listing\<close>

text \<open>
  C8. In every state of the table, reachable or not, both layers leave the table as it
  is and list its rows, each as often as the table holds it, in the order of
  \<open>ORDER BY createdAt DESC\<close>: no row of the list has a \<open>createdAt\<close> in the column above that
  of a row before it. The raw layer returns the rows as they are, so that its list is
  itself in descending order of \<open>createdAt\<close>; the ORM layer returns each row with
  \<open>createdAt\<close> as an ISO string. Where every \<open>createdAt\<close> of the table is text that one of
  the layers writes, the order of the text is the order of time: no row of the list has
  a later \<open>createdAt\<close> than a row before it, and the instances that the ORM's \<open>findAll\<close> returns are
  in descending order of their \<open>Date\<close>.
\<close>

theorem getAllBooks_newest_first:
  "fst (raw_getAllBooks d) = Inr (map mapRowToBook (order_by_createdAt_desc (books d)))
   \<and> fst (orm_getAllBooks d) = Inr (map plain (map build (order_by_createdAt_desc (books d))))
   \<and> snd (raw_getAllBooks d) = d \<and> snd (orm_getAllBooks d) = d
   \<and> mset (order_by_createdAt_desc (books d)) = mset (books d)
   \<and> sorted_wrt (\<lambda>a b. createdAt b \<le> createdAt a) (order_by_createdAt_desc (books d))
   \<and> (\<exists>bs. fst (raw_getAllBooks d) = Inr bs \<and> mset bs = mset (books d)
           \<and> sorted_wrt (\<lambda>a b. createdAt b \<le> createdAt a) bs)
   \<and> ((\<forall>r\<in>set (books d). written_by_a_layer (createdAt r)) \<longrightarrow>
         sorted_wrt (\<lambda>a b. dt_key (DATE_parse (createdAt b)) \<le> dt_key (DATE_parse (createdAt a)))
           (order_by_createdAt_desc (books d))
       \<and> sorted_wrt (\<lambda>a b. dt_key (createdAt b) \<le> dt_key (createdAt a))
           (findAll_createdAt_desc d))"
proof -
  have same: "map mapRowToBook rs = rs" for rs
    by (simp add: mapRowToBook_row map_idI)
  have listed: "fst (raw_getAllBooks d) = Inr (map mapRowToBook (order_by_createdAt_desc (books d)))
   \<and> fst (orm_getAllBooks d) = Inr (map plain (map build (order_by_createdAt_desc (books d))))
   \<and> snd (raw_getAllBooks d) = d \<and> snd (orm_getAllBooks d) = d
   \<and> mset (order_by_createdAt_desc (books d)) = mset (books d)
   \<and> sorted_wrt (\<lambda>a b. createdAt b \<le> createdAt a) (order_by_createdAt_desc (books d))
   \<and> (\<exists>bs. fst (raw_getAllBooks d) = Inr bs \<and> mset bs = mset (books d)
           \<and> sorted_wrt (\<lambda>a b. createdAt b \<le> createdAt a) bs)"
    by (simp add: raw_getAllBooks_def orm_getAllBooks_def findAll_createdAt_desc_def
        order_by_mset order_by_sorted same)
  have in_time: "sorted_wrt (\<lambda>a b. dt_key (DATE_parse (createdAt b)) \<le> dt_key (DATE_parse (createdAt a)))
           (order_by_createdAt_desc (books d))
       \<and> sorted_wrt (\<lambda>a b. dt_key (createdAt b) \<le> dt_key (createdAt a))
           (findAll_createdAt_desc d)"
    if w: "\<forall>r\<in>set (books d). written_by_a_layer (createdAt r)"
  proof -
    have s: "sorted_wrt (\<lambda>a b. dt_key (DATE_parse (createdAt b)) \<le> dt_key (DATE_parse (createdAt a)))
           (order_by_createdAt_desc (books d))"
      using w by (rule order_by_newest_first)
    then show ?thesis
      by (simp add: findAll_createdAt_desc_def sorted_wrt_map build_fields)
  qed
  show ?thesis
    using listed in_time by blast
qed

theorem getAllBooks_newest_first_witness:
  "written_by_a_layer (createdAt dune) \<and> written_by_a_layer (createdAt ubik)
   \<and> written_by_a_layer (createdAt emma)
   \<and> fst (raw_getAllBooks \<lparr>books = [dune, ubik], sqlite_sequence = 3\<rparr>) = Inr [ubik, dune]
   \<and> fst (orm_getAllBooks \<lparr>books = [dune, ubik], sqlite_sequence = 3\<rparr>)
       = Inr [ubik\<lparr>createdAt := ''2024-01-01T12:00:00.000Z''\<rparr>,
              dune\<lparr>createdAt := ''2024-01-01T12:00:00.000Z''\<rparr>]
   \<and> fst (raw_getAllBooks shelf) = Inr [emma, dune]
   \<and> fst (orm_getAllBooks shelf)
       = Inr [emma\<lparr>createdAt := ''2024-01-01T12:00:30.250Z''\<rparr>,
              dune\<lparr>createdAt := ''2024-01-01T12:00:00.000Z''\<rparr>]
   \<and> sorted_wrt (\<lambda>a b. createdAt b \<le> createdAt a) [ubik, dune]
   \<and> sorted_wrt (\<lambda>a b. createdAt b \<le> createdAt a) [emma, dune]
   \<and> sorted_wrt (\<lambda>a b. dt_key (DATE_parse (createdAt b)) \<le> dt_key (DATE_parse (createdAt a)))
        [ubik, dune]
   \<and> sorted_wrt (\<lambda>a b. dt_key (DATE_parse (createdAt b)) \<le> dt_key (DATE_parse (createdAt a)))
        [emma, dune]
   \<and> createdAt dune = ''2024-01-01 12:00:00''
   \<and> createdAt ubik = ''2024-01-01 12:00:00.000 +00:00''
   \<and> createdAt emma = ''2024-01-01 12:00:30.250 +00:00''
   \<and> dt_key (DATE_parse (createdAt dune)) = (2024, 1, 1, 12, 0, 0, 0)
   \<and> dt_key (DATE_parse (createdAt ubik)) = (2024, 1, 1, 12, 0, 0, 0)
   \<and> dt_key (DATE_parse (createdAt emma)) = (2024, 1, 1, 12, 0, 30, 250)"
proof -
  have c: "createdAt dune = ''2024-01-01 12:00:00''"
    "createdAt ubik = ''2024-01-01 12:00:00.000 +00:00''"
    "createdAt emma = ''2024-01-01 12:00:30.250 +00:00''"
    by (simp_all add: dune_def ubik_def emma_def)
  have w: "written_by_a_layer (createdAt dune)" "written_by_a_layer (createdAt ubik)"
    "written_by_a_layer (createdAt emma)"
    by (simp_all only: c written_by_a_layer_def parse_samples noon_text later_text simp_thms)
  have k: "dt_key (DATE_parse (createdAt dune)) = (2024, 1, 1, 12, 0, 0, 0)"
    "dt_key (DATE_parse (createdAt ubik)) = (2024, 1, 1, 12, 0, 0, 0)"
    "dt_key (DATE_parse (createdAt emma)) = (2024, 1, 1, 12, 0, 30, 250)"
    by (simp_all add: c parse_samples dt_key_def noon_def later_def)
  have h1: "\<forall>r\<in>set (books \<lparr>books = [dune, ubik], sqlite_sequence = 3\<rparr>).
              written_by_a_layer (createdAt r)"
    using w by simp
  have h2: "\<forall>r\<in>set (books shelf). written_by_a_layer (createdAt r)"
    using w by (simp add: shelf_def)
  note t1 = getAllBooks_newest_first [of "\<lparr>books = [dune, ubik], sqlite_sequence = 3\<rparr>"]
  note t2 = getAllBooks_newest_first [of shelf]
  have l1: "fst (raw_getAllBooks \<lparr>books = [dune, ubik], sqlite_sequence = 3\<rparr>) = Inr [ubik, dune]"
    "fst (orm_getAllBooks \<lparr>books = [dune, ubik], sqlite_sequence = 3\<rparr>)
       = Inr [ubik\<lparr>createdAt := ''2024-01-01T12:00:00.000Z''\<rparr>,
              dune\<lparr>createdAt := ''2024-01-01T12:00:00.000Z''\<rparr>]"
    "sorted_wrt (\<lambda>a b. createdAt b \<le> createdAt a) [ubik, dune]"
    using t1 by (simp_all add: order_by_twins mapRowToBook_row served_samples)
  have l2: "fst (raw_getAllBooks shelf) = Inr [emma, dune]"
    "fst (orm_getAllBooks shelf)
       = Inr [emma\<lparr>createdAt := ''2024-01-01T12:00:30.250Z''\<rparr>,
              dune\<lparr>createdAt := ''2024-01-01T12:00:00.000Z''\<rparr>]"
    "sorted_wrt (\<lambda>a b. createdAt b \<le> createdAt a) [emma, dune]"
    using t2 by (simp_all add: shelf_def order_by_shelf mapRowToBook_row served_samples)
  from t1 h1 have o1: "sorted_wrt (\<lambda>a b. dt_key (DATE_parse (createdAt b)) \<le> dt_key (DATE_parse (createdAt a)))
        (order_by_createdAt_desc (books \<lparr>books = [dune, ubik], sqlite_sequence = 3\<rparr>))"
    by blast
  from t2 h2 have o2: "sorted_wrt (\<lambda>a b. dt_key (DATE_parse (createdAt b)) \<le> dt_key (DATE_parse (createdAt a)))
        (order_by_createdAt_desc (books shelf))"
    by blast
  have s1: "sorted_wrt (\<lambda>a b. dt_key (DATE_parse (createdAt b)) \<le> dt_key (DATE_parse (createdAt a)))
        [ubik, dune]"
    using o1 by (simp only: database.simps order_by_twins)
  have s2: "sorted_wrt (\<lambda>a b. dt_key (DATE_parse (createdAt b)) \<le> dt_key (DATE_parse (createdAt a)))
        [emma, dune]"
    using o2 by (simp only: shelf_def database.simps order_by_shelf)
  show ?thesis
    by (intro conjI w l1 l2 s1 s2 c k)
qed

section \<open>What an update leaves alone\<close>

text \<open>
  C9. In both layers, row by row: after \<open>toggleBookStatus\<close> each row is the row it was
  but for its status, after \<open>updateBookRating\<close> but for its rating; a row with another id
  is the row it was; no row is added, dropped or moved, and the id counter stays.
\<close>

theorem single_field_updates:
  assumes "S = raw_store \<or> S = orm_store"
  shows "list_all2 (\<lambda>r r'. r'\<lparr>status := status r\<rparr> = r \<and> (row_matches i r \<or> r' = r))
           (books d) (books (snd (toggleBookStatus S i d)))
       \<and> sqlite_sequence (snd (toggleBookStatus S i d)) = sqlite_sequence d
       \<and> list_all2 (\<lambda>r r'. r'\<lparr>rating := rating r\<rparr> = r \<and> (row_matches i r \<or> r' = r))
           (books d) (books (snd (updateBookRating S i rt d)))
       \<and> sqlite_sequence (snd (updateBookRating S i rt d)) = sqlite_sequence d"
  using assms
proof
  assume S: "S = raw_store"
  show ?thesis
    by (simp add: S store_fields raw_toggleBookStatus_def raw_updateBookRating_def Let_def
        list_all2_map_self)
next
  assume S: "S = orm_store"
  have same: "list_all2 (\<lambda>r r'. r'\<lparr>status := status r\<rparr> = r \<and> (row_matches i r \<or> r' = r)) xs xs"
             "list_all2 (\<lambda>r r'. r'\<lparr>rating := rating r\<rparr> = r \<and> (row_matches i r \<or> r' = r)) xs xs"
    for xs :: "Book list"
    by (simp_all add: list_all2_same)
  show ?thesis
  proof (cases "findByPk i d")
    case (Inl e)
    then show ?thesis
      by (simp add: S store_fields orm_toggleBookStatus_def orm_updateBookRating_def same)
  next
    case (Inr found)
    show ?thesis
    proof (cases found)
      case None
      then show ?thesis
        using Inr
        by (simp add: S store_fields orm_toggleBookStatus_def orm_updateBookRating_def same)
    next
      case (Some book)
      obtain q where q: "i = Fin q"
        using Inr by (cases i) (simp_all add: findByPk_def)
      from Inr Some q obtain b where b: "find (row_matches i) (books d) = Some b"
        and book: "book = build b"
        by (auto simp: findByPk_def)
      from b have m: "row_matches i b" by (simp add: find_row_matches)
      have t: "list_all2 (\<lambda>r r'. r'\<lparr>status := status r\<rparr> = r \<and> (row_matches i r \<or> r' = r))
               (books d) (map (\<lambda>x. if id' x = id' b then x\<lparr>status := s\<rparr> else x) (books d))" for s
        by (rule list_all2_map_self) (simp add: row_matches_same_id [OF m])
      have u: "list_all2 (\<lambda>r r'. r'\<lparr>rating := rating r\<rparr> = r \<and> (row_matches i r \<or> r' = r))
               (books d) (map (\<lambda>x. if id' x = id' b then x\<lparr>rating := rt\<rparr> else x) (books d))"
        by (rule list_all2_map_self) (simp add: row_matches_same_id [OF m])
      show ?thesis
        using Inr Some t u
        by (simp add: S store_fields orm_toggleBookStatus_def orm_updateBookRating_def
            update_status_def update_rating_def Let_def same book build_fields)
    qed
  qed
qed

theorem single_field_updates_witness:
  "(raw_store = raw_store \<or> raw_store = orm_store)
   \<and> (orm_store = raw_store \<or> orm_store = orm_store)
   \<and> books (snd (toggleBookStatus raw_store (Fin 1) shelf)) = [dune\<lparr>status := READ\<rparr>, emma]
   \<and> books (snd (toggleBookStatus orm_store (Fin 1) shelf)) = [dune\<lparr>status := READ\<rparr>, emma]
   \<and> books (snd (updateBookRating raw_store (Fin 2) (Fin 5) shelf)) = [dune, emma\<lparr>rating := Fin 5\<rparr>]
   \<and> books (snd (updateBookRating orm_store (Fin 2) (Fin 5) shelf)) = [dune, emma\<lparr>rating := Fin 5\<rparr>]
   \<and> list_all2 (\<lambda>r r'. r'\<lparr>status := status r\<rparr> = r \<and> (row_matches (Fin 1) r \<or> r' = r))
        (books shelf) (books (snd (toggleBookStatus raw_store (Fin 1) shelf)))
   \<and> list_all2 (\<lambda>r r'. r'\<lparr>rating := rating r\<rparr> = r \<and> (row_matches (Fin 2) r \<or> r' = r))
        (books shelf) (books (snd (updateBookRating orm_store (Fin 2) (Fin 5) shelf)))
   \<and> sqlite_sequence (snd (toggleBookStatus orm_store (Fin 1) shelf)) = 2
   \<and> sqlite_sequence (snd (updateBookRating raw_store (Fin 2) (Fin 5) shelf)) = 2"
proof -
  have h1: "raw_store = raw_store \<or> raw_store = orm_store" by simp
  have h2: "orm_store = raw_store \<or> orm_store = orm_store" by simp
  have m: "\<not> row_matches (Fin 2) dune" "row_matches (Fin 2) emma"
    by (simp_all add: row_matches_def dune_def emma_def)
  have s: "toggled (status dune) = READ" "id' emma \<noteq> id' dune" "id' dune \<noteq> id' emma"
    by (simp_all add: toggled_def dune_def emma_def)
  have e: "books (snd (toggleBookStatus raw_store (Fin 1) shelf)) = [dune\<lparr>status := READ\<rparr>, emma]"
    "books (snd (toggleBookStatus orm_store (Fin 1) shelf)) = [dune\<lparr>status := READ\<rparr>, emma]"
    "books (snd (updateBookRating raw_store (Fin 2) (Fin 5) shelf)) = [dune, emma\<lparr>rating := Fin 5\<rparr>]"
    "books (snd (updateBookRating orm_store (Fin 2) (Fin 5) shelf)) = [dune, emma\<lparr>rating := Fin 5\<rparr>]"
    by (simp_all add: store_fields raw_toggleBookStatus_def orm_toggleBookStatus_def
        raw_updateBookRating_def orm_updateBookRating_def findByPk_def update_status_def
        update_rating_def validate_rating_def Let_def shelf_def shelf_matches m s build_fields)
  have q: "sqlite_sequence shelf = 2" by (simp add: shelf_def)
  show ?thesis
    using single_field_updates [OF h1, of "Fin 1" shelf "Fin 5"]
      single_field_updates [OF h2, of "Fin 2" shelf "Fin 5"]
      single_field_updates [OF h2, of "Fin 1" shelf "Fin 5"]
      single_field_updates [OF h1, of "Fin 2" shelf "Fin 5"]
    by (simp only: h1 h2 e q simp_thms)
qed

section \<open>No uniqueness of title and author\<close>

text \<open>
  C10. In both layers and from every table, two \<open>createBook\<close> calls with the same title
  and author both return a book; the two have different ids and the same title and
  author, the table has two rows more, and the list read next holds both books.
\<close>

theorem create_twice_same_input:
  assumes "S = raw_store \<or> S = orm_store"
  shows "\<exists>b1 b2 bs.
           fst (createBook S t a now1 d) = Inr b1
         \<and> fst (createBook S t a now2 (snd (createBook S t a now1 d))) = Inr b2
         \<and> id' b1 \<noteq> id' b2 \<and> title b1 = title b2 \<and> author b1 = author b2
         \<and> length (books (snd (createBook S t a now2 (snd (createBook S t a now1 d)))))
             = length (books d) + 2
         \<and> fst (getAllBooks S (snd (createBook S t a now2 (snd (createBook S t a now1 d)))))
             = Inr bs
         \<and> b1 \<in> set bs \<and> b2 \<in> set bs"
  using assms
proof
  assume S: "S = raw_store"
  let ?d1 = "d\<lparr>books := books d @ [inserted t a (CURRENT_TIMESTAMP now1) d],
                sqlite_sequence := next_rowid d\<rparr>"
  have "next_rowid d < next_rowid ?d1"
    using next_rowid_above_sequence [of ?d1] by simp
  then show ?thesis
    by (simp add: S store_fields raw_createBook_eq raw_getAllBooks_def order_by_set
        mapRowToBook_row inserted_fields)
next
  assume S: "S = orm_store"
  let ?d1 = "d\<lparr>books := books d @ [inserted (trim t) (trim a) (DATE_stringify now1) d],
                sqlite_sequence := next_rowid d\<rparr>"
  have "next_rowid d < next_rowid ?d1"
    using next_rowid_above_sequence [of ?d1] by simp
  then show ?thesis
    by (simp add: S store_fields orm_createBook_eq orm_getAllBooks_eq order_by_set
        served_inserted inserted_fields)
qed

theorem create_twice_same_input_witness:
  "(raw_store = raw_store \<or> raw_store = orm_store)
   \<and> (orm_store = raw_store \<or> orm_store = orm_store)
   \<and> (\<exists>b1 b2 bs.
           fst (createBook raw_store ''Dune'' ''Herbert'' noon shelf) = Inr b1
         \<and> fst (createBook raw_store ''Dune'' ''Herbert'' later
                  (snd (createBook raw_store ''Dune'' ''Herbert'' noon shelf))) = Inr b2
         \<and> id' b1 \<noteq> id' b2 \<and> title b1 = title b2 \<and> author b1 = author b2
         \<and> length (books (snd (createBook raw_store ''Dune'' ''Herbert'' later
                  (snd (createBook raw_store ''Dune'' ''Herbert'' noon shelf)))))
             = length (books shelf) + 2
         \<and> fst (getAllBooks raw_store (snd (createBook raw_store ''Dune'' ''Herbert'' later
                  (snd (createBook raw_store ''Dune'' ''Herbert'' noon shelf)))))
             = Inr bs
         \<and> b1 \<in> set bs \<and> b2 \<in> set bs)
   \<and> (\<exists>b1 b2 bs.
           fst (createBook orm_store ''Dune'' ''Herbert'' noon shelf) = Inr b1
         \<and> fst (createBook orm_store ''Dune'' ''Herbert'' later
                  (snd (createBook orm_store ''Dune'' ''Herbert'' noon shelf))) = Inr b2
         \<and> id' b1 \<noteq> id' b2 \<and> title b1 = title b2 \<and> author b1 = author b2
         \<and> length (books (snd (createBook orm_store ''Dune'' ''Herbert'' later
                  (snd (createBook orm_store ''Dune'' ''Herbert'' noon shelf)))))
             = length (books shelf) + 2
         \<and> fst (getAllBooks orm_store (snd (createBook orm_store ''Dune'' ''Herbert'' later
                  (snd (createBook orm_store ''Dune'' ''Herbert'' noon shelf)))))
             = Inr bs
         \<and> b1 \<in> set bs \<and> b2 \<in> set bs)
   \<and> map id' (books (snd (createBook raw_store ''Dune'' ''Herbert'' later
                  (snd (createBook raw_store ''Dune'' ''Herbert'' noon shelf))))) = [1, 2, 3, 4]"
proof -
  have h1: "raw_store = raw_store \<or> raw_store = orm_store" by simp
  have h2: "orm_store = raw_store \<or> orm_store = orm_store" by simp
  have n: "next_rowid (shelf\<lparr>books := books shelf @ [r], sqlite_sequence := 3\<rparr>) = 4"
    if "id' r = 3" for r
    using that by (simp add: next_rowid_def shelf_def dune_def emma_def)
  have e: "map id' (books (snd (createBook raw_store ''Dune'' ''Herbert'' later
                  (snd (createBook raw_store ''Dune'' ''Herbert'' noon shelf))))) = [1, 2, 3, 4]"
    by (simp add: store_fields raw_createBook_eq shelf_next n inserted_fields)
      (simp add: shelf_def dune_def emma_def)
  show ?thesis
    by (intro conjI h1 h2 e create_twice_same_input [OF h1] create_twice_same_input [OF h2])
qed

end
